theory Spec2Isabelle
  imports Main
begin

section \<open>Data model\<close>

text \<open>
  The WebApp operator reconciles one custom resource (a WebApp) into two child
  resources (a Deployment and a Service) held by the Kubernetes API server. The
  embedding follows the controller (\<^verbatim>\<open>Reconcile\<close>, \<^verbatim>\<open>reconcileDeployment\<close>,
  \<^verbatim>\<open>reconcileService\<close>, \<^verbatim>\<open>cleanupChildResources\<close>, \<^verbatim>\<open>setCondition\<close>,
  \<^verbatim>\<open>labelsForWebApp\<close>) and the types of \<^verbatim>\<open>api/v1alpha1/webapp_types.go\<close>.

  Go's \<^verbatim>\<open>int32\<close> and \<^verbatim>\<open>int64\<close> values are only copied and compared by the
  controller, never computed with, so they are integers here. Times are natural
  numbers, \<open>0\<close> standing for Go's zero time. Kubernetes label maps are association
  lists; the controller only ever writes the literal of \<open>labelsForWebApp\<close>.
\<close>

type_synonym labels = "(string \<times> string) list"

text \<open>Fields of a stored object that the controller never names: path and value.\<close>

type_synonym fields = "(string \<times> string) list"

text \<open>\<^verbatim>\<open>types.NamespacedName\<close>: namespace, then name.\<close>

type_synonym key = "string \<times> string"

datatype ConditionStatus = ConditionTrue | ConditionFalse | ConditionUnknown

record Condition =
  cond_Type :: string
  cond_Status :: ConditionStatus
  cond_Reason :: string
  cond_Message :: string
  cond_ObservedGeneration :: int
  cond_LastTransitionTime :: nat

record WebApp =
  Name :: string
  Namespace :: string
  UID :: string
  Generation :: int
  DeletionTimestamp :: "nat option"
  Finalizers :: "string list"
  Spec_Image :: string
  Spec_Replicas :: "int option"
  Spec_Port :: int
  Status_AvailableReplicas :: int
  Status_Conditions :: "Condition list"

record OwnerReference =
  or_Kind :: string
  or_Name :: string
  or_UID :: string
  or_Controller :: bool

record ContainerPort =
  cp_ContainerPort :: int
  cp_Protocol :: string

record Container =
  ctr_Name :: string
  ctr_Image :: string
  ctr_Ports :: "ContainerPort list"
  ctr_Other :: fields

record Deployment =
  d_Name :: string
  d_Namespace :: string
  d_OwnerReferences :: "OwnerReference list"
  d_Replicas :: "int option"
  d_Selector :: labels
  d_TemplateLabels :: labels
  d_Containers :: "Container list"
  d_Other :: fields
  d_AvailableReplicas :: int

datatype IntOrString = IntVal int | StrVal string

record ServicePort =
  sp_Port :: int
  sp_TargetPort :: IntOrString
  sp_Protocol :: string

record Service =
  s_Name :: string
  s_Namespace :: string
  s_OwnerReferences :: "OwnerReference list"
  s_Selector :: labels
  s_Ports :: "ServicePort list"
  s_Type :: string
  s_Other :: fields

definition TypeAvailable :: string where
  "TypeAvailable = ''Available''"

definition TypeProgressing :: string where
  "TypeProgressing = ''Progressing''"

definition TypeDegraded :: string where
  "TypeDegraded = ''Degraded''"

definition webappFinalizer :: string where
  "webappFinalizer = ''app.54b3r.io/finalizer''"

text \<open>\<^verbatim>\<open>time.Minute\<close>, in nanoseconds as Go's \<^verbatim>\<open>time.Duration\<close> counts.\<close>

definition requeueAfter :: nat where
  "requeueAfter = 60 * 1000000000"

section \<open>Errors and results\<close>

text \<open>
  What the API server can answer instead of an object. \<open>Transient\<close> covers timeouts,
  unavailability and optimistic-concurrency conflicts: the controller treats them alike.
\<close>

datatype api_error = NotFound string | AlreadyExists string | Transient string

fun api_message :: "api_error \<Rightarrow> string" where
  "api_message (NotFound m) = m"
| "api_message (AlreadyExists m) = m"
| "api_message (Transient m) = m"

text \<open>Go \<^verbatim>\<open>error\<close> values; \<open>Wrapped p e\<close> is \<^verbatim>\<open>fmt.Errorf("p: %w", e)\<close>.\<close>

datatype error = ApiError api_error | SchemeError string | Wrapped string error

fun Error :: "error \<Rightarrow> string" where
  "Error (ApiError e) = api_message e"
| "Error (SchemeError m) = m"
| "Error (Wrapped p e) = p @ '': '' @ Error e"

fun IsNotFound :: "error \<Rightarrow> bool" where
  "IsNotFound (ApiError (NotFound m)) = True"
| "IsNotFound (ApiError e) = False"
| "IsNotFound (SchemeError m) = False"
| "IsNotFound (Wrapped p e) = IsNotFound e"

definition IgnoreNotFound :: "error \<Rightarrow> error option" where
  "IgnoreNotFound e = (if IsNotFound e then None else Some e)"

text \<open>A Go call either returns or panics.\<close>

datatype 'a go = Returns 'a | Panics string

text \<open>\<^verbatim>\<open>ctrl.Result\<close>.\<close>

record Result =
  Requeue :: bool
  RequeueAfter :: nat

definition Result_empty :: Result where
  "Result_empty = \<lparr>Requeue = False, RequeueAfter = 0\<rparr>"

section \<open>The API server\<close>

text \<open>
  The store is an external collaborator. It is modelled at its interface: three
  tables keyed by namespace and name, the outcomes of the coming calls (\<open>script\<close>; an
  exhausted script means the call goes through), and the calls issued so far, oldest
  first (\<open>trace\<close>). \<open>scheme_registered\<close> says whether the reconciler's
  \<^verbatim>\<open>runtime.Scheme\<close> knows the WebApp kind, and \<open>clock\<close> is what
  \<^verbatim>\<open>time.Now()\<close> reads; both are set by the environment, not by the controller.

  A WebApp whose deletion has been requested stays in the store for as long as it
  lists a finalizer; the store removes it within the update that leaves it with none.
  Garbage collection of the children of a removed WebApp is a later step of the store
  and is not part of a reconcile pass.
\<close>

datatype outcome = Succeed | Fail string

datatype call =
    GetWebApp key
  | UpdateWebApp WebApp
  | UpdateWebAppStatus WebApp
  | GetDeployment key
  | CreateDeployment Deployment
  | UpdateDeployment Deployment
  | GetService key
  | CreateService Service
  | UpdateService Service

record cluster =
  webapps :: "key \<rightharpoonup> WebApp"
  deployments :: "key \<rightharpoonup> Deployment"
  services :: "key \<rightharpoonup> Service"
  scheme_registered :: bool
  clock :: nat
  script :: "outcome list"
  trace :: "call list"

definition next_outcome :: "cluster \<Rightarrow> outcome \<times> cluster" where
  "next_outcome w =
     (case script w of [] \<Rightarrow> (Succeed, w) | o1 # os \<Rightarrow> (o1, w\<lparr>script := os\<rparr>))"

definition issue :: "call \<Rightarrow> cluster \<Rightarrow> outcome \<times> cluster" where
  "issue c w = next_outcome (w\<lparr>trace := trace w @ [c]\<rparr>)"

text \<open>
  The messages of \<^verbatim>\<open>apierrors.NewNotFound\<close> and \<^verbatim>\<open>apierrors.NewAlreadyExists\<close>: the
  resource, the quoted name, and what went wrong.
\<close>

definition not_found :: "string \<Rightarrow> string \<Rightarrow> api_error" where
  "not_found resource nm =
     NotFound (resource @ '' '' @ [CHR 0x22] @ nm @ [CHR 0x22] @ '' not found'')"

definition already_exists :: "string \<Rightarrow> string \<Rightarrow> api_error" where
  "already_exists resource nm =
     AlreadyExists (resource @ '' '' @ [CHR 0x22] @ nm @ [CHR 0x22] @ '' already exists'')"

definition wkey :: "WebApp \<Rightarrow> key" where
  "wkey x = (Namespace x, Name x)"

definition dkey :: "Deployment \<Rightarrow> key" where
  "dkey d = (d_Namespace d, d_Name d)"

definition skey :: "Service \<Rightarrow> key" where
  "skey s = (s_Namespace s, s_Name s)"

text \<open>\<^verbatim>\<open>r.Get(ctx, key, webapp)\<close>.\<close>

definition get_webapp :: "key \<Rightarrow> cluster \<Rightarrow> (api_error + WebApp) \<times> cluster" where
  "get_webapp k w =
     (case issue (GetWebApp k) w of
        (Fail m, w') \<Rightarrow> (Inl (Transient m), w')
      | (Succeed, w') \<Rightarrow>
          (case webapps w' k of
             None \<Rightarrow> (Inl (not_found ''webapps.app.54b3r.io'' (snd k)), w')
           | Some x \<Rightarrow> (Inr x, w')))"

text \<open>
  \<^verbatim>\<open>r.Update(ctx, webapp)\<close>: the WebApp has a status subresource, so the write
  takes metadata and spec from the argument and keeps the stored status. On success the
  caller's object becomes the written one. The deletion timestamp is set by the store
  alone and the controller never assigns it, so the argument carries the stored one: when
  it is set and the written object lists no finalizer, the store removes the object
  instead of keeping it.
\<close>

definition update_webapp :: "WebApp \<Rightarrow> cluster \<Rightarrow> api_error option \<times> WebApp \<times> cluster" where
  "update_webapp x w =
     (case issue (UpdateWebApp x) w of
        (Fail m, w') \<Rightarrow> (Some (Transient m), x, w')
      | (Succeed, w') \<Rightarrow>
          (case webapps w' (wkey x) of
             None \<Rightarrow> (Some (not_found ''webapps.app.54b3r.io'' (Name x)), x, w')
           | Some old \<Rightarrow>
               (let new = x\<lparr>Status_AvailableReplicas := Status_AvailableReplicas old,
                             Status_Conditions := Status_Conditions old\<rparr>
                in (None, new,
                    w'\<lparr>webapps :=
                         (if DeletionTimestamp new \<noteq> None \<and> Finalizers new = []
                          then (webapps w')(wkey x := None)
                          else (webapps w')(wkey x \<mapsto> new))\<rparr>))))"

text \<open>\<^verbatim>\<open>r.Status().Update(ctx, webapp)\<close>: only the status of the argument is written.\<close>

definition update_webapp_status ::
  "WebApp \<Rightarrow> cluster \<Rightarrow> api_error option \<times> WebApp \<times> cluster" where
  "update_webapp_status x w =
     (case issue (UpdateWebAppStatus x) w of
        (Fail m, w') \<Rightarrow> (Some (Transient m), x, w')
      | (Succeed, w') \<Rightarrow>
          (case webapps w' (wkey x) of
             None \<Rightarrow> (Some (not_found ''webapps.app.54b3r.io'' (Name x)), x, w')
           | Some old \<Rightarrow>
               (let new = old\<lparr>Status_AvailableReplicas := Status_AvailableReplicas x,
                               Status_Conditions := Status_Conditions x\<rparr>
                in (None, new, w'\<lparr>webapps := (webapps w')(wkey x \<mapsto> new)\<rparr>))))"

definition get_deployment :: "key \<Rightarrow> cluster \<Rightarrow> (api_error + Deployment) \<times> cluster" where
  "get_deployment k w =
     (case issue (GetDeployment k) w of
        (Fail m, w') \<Rightarrow> (Inl (Transient m), w')
      | (Succeed, w') \<Rightarrow>
          (case deployments w' k of
             None \<Rightarrow> (Inl (not_found ''deployments.apps'' (snd k)), w')
           | Some d \<Rightarrow> (Inr d, w')))"

text \<open>\<^verbatim>\<open>r.Create(ctx, deployment)\<close>: a new object starts with an empty status.\<close>

definition create_deployment :: "Deployment \<Rightarrow> cluster \<Rightarrow> api_error option \<times> cluster" where
  "create_deployment d w =
     (case issue (CreateDeployment d) w of
        (Fail m, w') \<Rightarrow> (Some (Transient m), w')
      | (Succeed, w') \<Rightarrow>
          (case deployments w' (dkey d) of
             Some old \<Rightarrow> (Some (already_exists ''deployments.apps'' (d_Name d)), w')
           | None \<Rightarrow>
               (None, w'\<lparr>deployments := (deployments w')(dkey d \<mapsto> d\<lparr>d_AvailableReplicas := 0\<rparr>)\<rparr>)))"

text \<open>\<^verbatim>\<open>r.Update(ctx, deployment)\<close>: the stored status is kept.\<close>

definition update_deployment :: "Deployment \<Rightarrow> cluster \<Rightarrow> api_error option \<times> cluster" where
  "update_deployment d w =
     (case issue (UpdateDeployment d) w of
        (Fail m, w') \<Rightarrow> (Some (Transient m), w')
      | (Succeed, w') \<Rightarrow>
          (case deployments w' (dkey d) of
             None \<Rightarrow> (Some (not_found ''deployments.apps'' (d_Name d)), w')
           | Some old \<Rightarrow>
               (None, w'\<lparr>deployments :=
                  (deployments w')(dkey d \<mapsto> d\<lparr>d_AvailableReplicas := d_AvailableReplicas old\<rparr>)\<rparr>)))"

definition get_service :: "key \<Rightarrow> cluster \<Rightarrow> (api_error + Service) \<times> cluster" where
  "get_service k w =
     (case issue (GetService k) w of
        (Fail m, w') \<Rightarrow> (Inl (Transient m), w')
      | (Succeed, w') \<Rightarrow>
          (case services w' k of
             None \<Rightarrow> (Inl (not_found ''services'' (snd k)), w')
           | Some s \<Rightarrow> (Inr s, w')))"

definition create_service :: "Service \<Rightarrow> cluster \<Rightarrow> api_error option \<times> cluster" where
  "create_service s w =
     (case issue (CreateService s) w of
        (Fail m, w') \<Rightarrow> (Some (Transient m), w')
      | (Succeed, w') \<Rightarrow>
          (case services w' (skey s) of
             Some old \<Rightarrow> (Some (already_exists ''services'' (s_Name s)), w')
           | None \<Rightarrow> (None, w'\<lparr>services := (services w')(skey s \<mapsto> s)\<rparr>)))"

definition update_service :: "Service \<Rightarrow> cluster \<Rightarrow> api_error option \<times> cluster" where
  "update_service s w =
     (case issue (UpdateService s) w of
        (Fail m, w') \<Rightarrow> (Some (Transient m), w')
      | (Succeed, w') \<Rightarrow>
          (case services w' (skey s) of
             None \<Rightarrow> (Some (not_found ''services'' (s_Name s)), w')
           | Some old \<Rightarrow> (None, w'\<lparr>services := (services w')(skey s \<mapsto> s)\<rparr>)))"

section \<open>Library helpers the controller calls\<close>

text \<open>\<^verbatim>\<open>metav1.Time.IsZero\<close>: a nil pointer or the zero time.\<close>

definition IsZero :: "nat option \<Rightarrow> bool" where
  "IsZero t = (case t of None \<Rightarrow> True | Some n \<Rightarrow> n = 0)"

definition ContainsFinalizer :: "WebApp \<Rightarrow> string \<Rightarrow> bool" where
  "ContainsFinalizer x f = (f \<in> set (Finalizers x))"

definition AddFinalizer :: "WebApp \<Rightarrow> string \<Rightarrow> WebApp" where
  "AddFinalizer x f =
     (if f \<in> set (Finalizers x) then x else x\<lparr>Finalizers := Finalizers x @ [f]\<rparr>)"

definition RemoveFinalizer :: "WebApp \<Rightarrow> string \<Rightarrow> WebApp" where
  "RemoveFinalizer x f = x\<lparr>Finalizers := filter (\<lambda>e. e \<noteq> f) (Finalizers x)\<rparr>"

text \<open>
  \<^verbatim>\<open>controllerutil.SetControllerReference(webapp, desired, r.Scheme)\<close> on a freshly built
  child in the owner's namespace: it fails only when the scheme does not know the owner's
  kind, and otherwise makes the owner the single controller reference. The library's
  message goes on to name the scheme by the source line that created it; the controller
  only copies the message into a condition, and it is cut short here.
\<close>

definition SetControllerReference ::
  "WebApp \<Rightarrow> cluster \<Rightarrow> error + OwnerReference list" where
  "SetControllerReference owner w =
     (if scheme_registered w
      then Inr [\<lparr>or_Kind = ''WebApp'', or_Name = Name owner, or_UID = UID owner,
                 or_Controller = True\<rparr>]
      else Inl (SchemeError ''no kind is registered for the type v1alpha1.WebApp''))"

text \<open>\<^verbatim>\<open>meta.FindStatusCondition\<close>: the first condition of the given type.\<close>

definition FindStatusCondition :: "Condition list \<Rightarrow> string \<Rightarrow> Condition option" where
  "FindStatusCondition conds t = find (\<lambda>c. cond_Type c = t) conds"

text \<open>
  What \<^verbatim>\<open>meta.SetStatusCondition\<close> does to the condition it found: the transition
  time moves only when the status changes; reason, message and observed generation are
  overwritten when they differ.
\<close>

definition merge_condition :: "nat \<Rightarrow> Condition \<Rightarrow> Condition \<Rightarrow> Condition" where
  "merge_condition now existing new =
     (let e1 = (if cond_Status existing \<noteq> cond_Status new
                then existing\<lparr>cond_Status := cond_Status new,
                       cond_LastTransitionTime :=
                         (if cond_LastTransitionTime new \<noteq> 0
                          then cond_LastTransitionTime new else now)\<rparr>
                else existing);
          e2 = (if cond_Reason e1 \<noteq> cond_Reason new
                then e1\<lparr>cond_Reason := cond_Reason new\<rparr> else e1);
          e3 = (if cond_Message e2 \<noteq> cond_Message new
                then e2\<lparr>cond_Message := cond_Message new\<rparr> else e2)
      in (if cond_ObservedGeneration e3 \<noteq> cond_ObservedGeneration new
          then e3\<lparr>cond_ObservedGeneration := cond_ObservedGeneration new\<rparr> else e3))"

fun SetStatusCondition :: "nat \<Rightarrow> Condition list \<Rightarrow> Condition \<Rightarrow> Condition list" where
  "SetStatusCondition now [] new =
     [if cond_LastTransitionTime new = 0 then new\<lparr>cond_LastTransitionTime := now\<rparr> else new]"
| "SetStatusCondition now (c # cs) new =
     (if cond_Type c = cond_Type new then merge_condition now c new # cs
      else c # SetStatusCondition now cs new)"

text \<open>\<^verbatim>\<open>fmt.Sprintf("%d", n)\<close>: the decimal digits, most significant first.\<close>

definition digit_char :: "nat \<Rightarrow> char" where
  "digit_char d = ''0123456789'' ! d"

fun decimal :: "nat \<Rightarrow> string" where
  "decimal n =
     (if 10 \<le> n then decimal (n div 10) @ [digit_char (n mod 10)] else [digit_char n])"

definition Sprintf_d :: "int \<Rightarrow> string" where
  "Sprintf_d i = (if 0 \<le> i then decimal (nat i) else CHR ''-'' # decimal (nat (- i)))"

declare decimal.simps [simp del]

section \<open>The controller\<close>

definition labelsForWebApp :: "string \<Rightarrow> labels" where
  "labelsForWebApp nm =
     [(''app.kubernetes.io/name'', ''webapp''),
      (''app.kubernetes.io/instance'', nm),
      (''app.kubernetes.io/managed-by'', ''platform-operator'')]"

text \<open>
  \<open>cleanupChildResources\<close> is a placeholder: the children are owned through their
  controller reference, so it issues no call and returns nil.
\<close>

definition cleanupChildResources :: "WebApp \<Rightarrow> cluster \<Rightarrow> error option \<times> cluster" where
  "cleanupChildResources webapp w = (None, w)"

text \<open>
  \<open>setCondition\<close> changes the caller's WebApp in place and then writes its status. The
  condition is built without a transition time; its observed generation is the
  generation of the caller's object.
\<close>

definition setCondition ::
  "WebApp \<Rightarrow> string \<Rightarrow> ConditionStatus \<Rightarrow> string \<Rightarrow> string \<Rightarrow> cluster
     \<Rightarrow> error option \<times> WebApp \<times> cluster" where
  "setCondition webapp condType status reason message w =
     (let webapp1 = webapp\<lparr>Status_Conditions :=
             SetStatusCondition (clock w) (Status_Conditions webapp)
               \<lparr>cond_Type = condType, cond_Status = status, cond_Reason = reason,
                cond_Message = message, cond_ObservedGeneration = Generation webapp,
                cond_LastTransitionTime = 0\<rparr>\<rparr>
      in case update_webapp_status webapp1 w of
           (Some e, webapp2, w') \<Rightarrow>
             (Some (Wrapped (''updating status condition '' @ condType) (ApiError e)), webapp2, w')
         | (None, webapp2, w') \<Rightarrow> (None, webapp2, w'))"

text \<open>The Deployment built from the WebApp's spec, before the owner reference is set.\<close>

definition desiredDeployment :: "WebApp \<Rightarrow> Deployment" where
  "desiredDeployment webapp =
     (let replicas = (case Spec_Replicas webapp of None \<Rightarrow> 1 | Some n \<Rightarrow> n)
      in \<lparr>d_Name = Name webapp,
          d_Namespace = Namespace webapp,
          d_OwnerReferences = [],
          d_Replicas = Some replicas,
          d_Selector = labelsForWebApp (Name webapp),
          d_TemplateLabels = labelsForWebApp (Name webapp),
          d_Containers =
            [\<lparr>ctr_Name = ''webapp'', ctr_Image = Spec_Image webapp,
              ctr_Ports = [\<lparr>cp_ContainerPort = Spec_Port webapp, cp_Protocol = ''TCP''\<rparr>],
              ctr_Other = []\<rparr>],
          d_Other = [],
          d_AvailableReplicas = 0\<rparr>)"

text \<open>
  The three assignments to an existing Deployment. The image and port list of
  \<^verbatim>\<open>Containers[0]\<close> are taken from the desired object's only container; indexing
  an empty container list panics.
\<close>

definition mergeDeployment :: "Deployment \<Rightarrow> Deployment \<Rightarrow> Deployment go" where
  "mergeDeployment existing desired =
     (case d_Containers existing of
        [] \<Rightarrow> Panics ''runtime error: index out of range [0] with length 0''
      | c # cs \<Rightarrow>
          Returns (existing\<lparr>d_Replicas := d_Replicas desired,
                     d_Containers :=
                       c\<lparr>ctr_Image := ctr_Image (hd (d_Containers desired)),
                         ctr_Ports := ctr_Ports (hd (d_Containers desired))\<rparr> # cs\<rparr>))"

definition reconcileDeployment :: "WebApp \<Rightarrow> cluster \<Rightarrow> error option go \<times> cluster" where
  "reconcileDeployment webapp w =
     (case SetControllerReference webapp w of
        Inl e \<Rightarrow> (Returns (Some (Wrapped ''setting owner reference on deployment'' e)), w)
      | Inr refs \<Rightarrow>
          (let desired = (desiredDeployment webapp)\<lparr>d_OwnerReferences := refs\<rparr>
           in case get_deployment (Namespace webapp, Name webapp) w of
                (Inl e, w1) \<Rightarrow>
                  (if IsNotFound (ApiError e)
                   then (case create_deployment desired w1 of
                           (r, w2) \<Rightarrow> (Returns (map_option ApiError r), w2))
                   else (Returns (Some (Wrapped ''getting deployment'' (ApiError e))), w1))
              | (Inr existing, w1) \<Rightarrow>
                  (case mergeDeployment existing desired of
                     Panics m \<Rightarrow> (Panics m, w1)
                   | Returns existing' \<Rightarrow>
                       (case update_deployment existing' w1 of
                          (r, w2) \<Rightarrow> (Returns (map_option ApiError r), w2)))))"

definition desiredService :: "WebApp \<Rightarrow> Service" where
  "desiredService webapp =
     \<lparr>s_Name = Name webapp,
      s_Namespace = Namespace webapp,
      s_OwnerReferences = [],
      s_Selector = labelsForWebApp (Name webapp),
      s_Ports = [\<lparr>sp_Port = Spec_Port webapp, sp_TargetPort = IntVal (Spec_Port webapp),
                  sp_Protocol = ''TCP''\<rparr>],
      s_Type = ''ClusterIP'',
      s_Other = []\<rparr>"

definition mergeService :: "Service \<Rightarrow> Service \<Rightarrow> Service" where
  "mergeService existing desired =
     existing\<lparr>s_Ports := s_Ports desired, s_Selector := s_Selector desired\<rparr>"

definition reconcileService :: "WebApp \<Rightarrow> cluster \<Rightarrow> error option go \<times> cluster" where
  "reconcileService webapp w =
     (case SetControllerReference webapp w of
        Inl e \<Rightarrow> (Returns (Some (Wrapped ''setting owner reference on service'' e)), w)
      | Inr refs \<Rightarrow>
          (let desired = (desiredService webapp)\<lparr>s_OwnerReferences := refs\<rparr>
           in case get_service (Namespace webapp, Name webapp) w of
                (Inl e, w1) \<Rightarrow>
                  (if IsNotFound (ApiError e)
                   then (case create_service desired w1 of
                           (r, w2) \<Rightarrow> (Returns (map_option ApiError r), w2))
                   else (Returns (Some (Wrapped ''getting service'' (ApiError e))), w1))
              | (Inr existing, w1) \<Rightarrow>
                  (case update_service (mergeService existing desired) w1 of
                     (r, w2) \<Rightarrow> (Returns (map_option ApiError r), w2))))"

text \<open>
  \<open>Reconcile\<close>, in three parts that follow the source top to bottom. \<open>Reconcile_status\<close>
  is the tail from the fetch of the Deployment for status to the final return.
\<close>

definition Reconcile_status :: "WebApp \<Rightarrow> cluster \<Rightarrow> (Result \<times> error option) go \<times> cluster" where
  "Reconcile_status webapp w =
     (case get_deployment (Namespace webapp, Name webapp) w of
        (Inl e, w1) \<Rightarrow>
          (Returns (Result_empty, Some (Wrapped ''fetching deployment for status'' (ApiError e))), w1)
      | (Inr dep, w1) \<Rightarrow>
          (let webapp1 = webapp\<lparr>Status_AvailableReplicas := d_AvailableReplicas dep\<rparr>;
               available = (d_AvailableReplicas dep > 0);
               availStatus = (if available then ConditionTrue else ConditionFalse);
               availReason = (if available then ''DeploymentAvailable'' else ''DeploymentUnavailable'');
               availMsg = (if available
                           then Sprintf_d (d_AvailableReplicas dep) @ '' replica(s) available''
                           else ''no replicas are available yet'')
           in case setCondition webapp1 TypeAvailable availStatus availReason availMsg w1 of
                (Some e, webapp2, w2) \<Rightarrow> (Returns (Result_empty, Some e), w2)
              | (None, webapp2, w2) \<Rightarrow>
                  (case setCondition webapp2 TypeProgressing ConditionFalse
                          ''ReconcileComplete'' ''reconciliation complete'' w2 of
                     (Some e, webapp3, w3) \<Rightarrow> (Returns (Result_empty, Some e), w3)
                   | (None, webapp3, w3) \<Rightarrow>
                       (case setCondition webapp3 TypeDegraded ConditionFalse
                               ''ReconcileComplete'' ''no errors'' w3 of
                          (Some e, webapp4, w4) \<Rightarrow> (Returns (Result_empty, Some e), w4)
                        | (None, webapp4, w4) \<Rightarrow>
                            (Returns (Result_empty\<lparr>RequeueAfter := requeueAfter\<rparr>, None), w4)))))"

text \<open>
  \<open>Reconcile_children\<close> is the middle: the Progressing mark, then the Deployment, then
  the Service. The error of the Degraded write is discarded, as in the source.
\<close>

definition Reconcile_children :: "WebApp \<Rightarrow> cluster \<Rightarrow> (Result \<times> error option) go \<times> cluster" where
  "Reconcile_children webapp w =
     (case setCondition webapp TypeProgressing ConditionTrue
             ''Reconciling'' ''reconciliation in progress'' w of
        (Some e, webapp1, w1) \<Rightarrow> (Returns (Result_empty, Some e), w1)
      | (None, webapp1, w1) \<Rightarrow>
          (case reconcileDeployment webapp1 w1 of
             (Panics m, w2) \<Rightarrow> (Panics m, w2)
           | (Returns (Some e), w2) \<Rightarrow>
               (case setCondition webapp1 TypeDegraded ConditionTrue
                       ''DeploymentFailed'' (Error e) w2 of
                  (ignored, webapp2, w3) \<Rightarrow>
                    (Returns (Result_empty, Some (Wrapped ''reconciling deployment'' e)), w3))
           | (Returns None, w2) \<Rightarrow>
               (case reconcileService webapp1 w2 of
                  (Panics m, w3) \<Rightarrow> (Panics m, w3)
                | (Returns (Some e), w3) \<Rightarrow>
                    (case setCondition webapp1 TypeDegraded ConditionTrue
                            ''ServiceFailed'' (Error e) w3 of
                       (ignored, webapp2, w4) \<Rightarrow>
                         (Returns (Result_empty, Some (Wrapped ''reconciling service'' e)), w4))
                | (Returns None, w3) \<Rightarrow> Reconcile_status webapp1 w3)))"

definition Reconcile :: "key \<Rightarrow> cluster \<Rightarrow> (Result \<times> error option) go \<times> cluster" where
  "Reconcile req w =
     (case get_webapp req w of
        (Inl e, w0) \<Rightarrow> (Returns (Result_empty, IgnoreNotFound (ApiError e)), w0)
      | (Inr webapp, w0) \<Rightarrow>
          (if \<not> IsZero (DeletionTimestamp webapp) then
             (if ContainsFinalizer webapp webappFinalizer then
                (case cleanupChildResources webapp w0 of
                   (Some e, w1) \<Rightarrow>
                     (Returns (Result_empty, Some (Wrapped ''finalizer cleanup'' e)), w1)
                 | (None, w1) \<Rightarrow>
                     (case update_webapp (RemoveFinalizer webapp webappFinalizer) w1 of
                        (Some e, webapp1, w2) \<Rightarrow>
                          (Returns (Result_empty, Some (Wrapped ''removing finalizer'' (ApiError e))), w2)
                      | (None, webapp1, w2) \<Rightarrow> (Returns (Result_empty, None), w2)))
              else (Returns (Result_empty, None), w0))
           else if \<not> ContainsFinalizer webapp webappFinalizer then
             (case update_webapp (AddFinalizer webapp webappFinalizer) w0 of
                (Some e, webapp1, w1) \<Rightarrow>
                  (Returns (Result_empty, Some (Wrapped ''adding finalizer'' (ApiError e))), w1)
              | (None, webapp1, w1) \<Rightarrow> (Returns (Result_empty\<lparr>Requeue := True\<rparr>, None), w1))
           else Reconcile_children webapp w0))"

section \<open>Observing a pass\<close>

text \<open>The calls issued between two states of the cluster.\<close>

definition pass_calls :: "cluster \<Rightarrow> cluster \<Rightarrow> call list" where
  "pass_calls w w' = drop (length (trace w)) (trace w')"

fun is_status_write :: "call \<Rightarrow> bool" where
  "is_status_write (UpdateWebAppStatus x) = True"
| "is_status_write c = False"

fun is_child_mutation :: "call \<Rightarrow> bool" where
  "is_child_mutation (CreateDeployment d) = True"
| "is_child_mutation (UpdateDeployment d) = True"
| "is_child_mutation (CreateService s) = True"
| "is_child_mutation (UpdateService s) = True"
| "is_child_mutation c = False"

text \<open>The condition of a kind that a consumer of the status reads.\<close>

definition condition_of :: "WebApp \<Rightarrow> string \<Rightarrow> Condition option" where
  "condition_of x t = FindStatusCondition (Status_Conditions x) t"

text \<open>The condition of a kind on the WebApp stored under a key.\<close>

definition stored_condition :: "cluster \<Rightarrow> key \<Rightarrow> string \<Rightarrow> Condition option" where
  "stored_condition w k t = (case webapps w k of None \<Rightarrow> None | Some x \<Rightarrow> condition_of x t)"






text \<open>The outcome of the next store call.\<close>

definition coming :: "cluster \<Rightarrow> outcome" where
  "coming w = (case script w of [] \<Rightarrow> Succeed | oc # os \<Rightarrow> oc)"

text \<open>The outcome of the store call after \<open>n\<close> more calls.\<close>

definition outcome_at :: "cluster \<Rightarrow> nat \<Rightarrow> outcome" where
  "outcome_at w n = (if n < length (script w) then script w ! n else Succeed)"

text \<open>The cluster once a call has been issued and answered, before its effect.\<close>

definition issued :: "call \<Rightarrow> cluster \<Rightarrow> cluster" where
  "issued c w = w\<lparr>trace := trace w @ [c], script := tl (script w)\<rparr>"

text \<open>Every coming store call goes through.\<close>

definition calm :: "cluster \<Rightarrow> bool" where
  "calm w = list_all (\<lambda>oc. oc = Succeed) (script w)"

text \<open>Two WebApp objects that differ at most in their status.\<close>

definition same_but_status :: "WebApp \<Rightarrow> WebApp \<Rightarrow> bool" where
  "same_but_status a b =
     (a\<lparr>Status_AvailableReplicas := Status_AvailableReplicas b,
        Status_Conditions := Status_Conditions b\<rparr> = b)"

text \<open>
  What the store holds for a child after a sync that went through: the desired object
  with its controller reference when there was none, the merge otherwise.
\<close>

definition controller_ref :: "WebApp \<Rightarrow> OwnerReference list" where
  "controller_ref owner =
     [\<lparr>or_Kind = ''WebApp'', or_Name = Name owner, or_UID = UID owner, or_Controller = True\<rparr>]"

definition synced_deployment :: "WebApp \<Rightarrow> Deployment option \<Rightarrow> Deployment go" where
  "synced_deployment x existing =
     (case existing of
        None \<Rightarrow> Returns ((desiredDeployment x)\<lparr>d_OwnerReferences := controller_ref x\<rparr>)
      | Some d \<Rightarrow>
          mergeDeployment d ((desiredDeployment x)\<lparr>d_OwnerReferences := controller_ref x\<rparr>))"

definition synced_service :: "WebApp \<Rightarrow> Service option \<Rightarrow> Service" where
  "synced_service x existing =
     (case existing of
        None \<Rightarrow> (desiredService x)\<lparr>s_OwnerReferences := controller_ref x\<rparr>
      | Some s \<Rightarrow> mergeService s ((desiredService x)\<lparr>s_OwnerReferences := controller_ref x\<rparr>))"

text \<open>The result of a pass that finished cleanly.\<close>

definition clean_result :: "(Result \<times> error option) go" where
  "clean_result = Returns (Result_empty\<lparr>RequeueAfter := requeueAfter\<rparr>, None)"

section \<open>Example clusters\<close>

text \<open>
  A WebApp named shop in the default namespace, as a user has just created it; the same
  object once the finalizer is registered; and once its deletion has been requested.
\<close>

definition ex_key :: key where
  "ex_key = (''default'', ''shop'')"

definition ex_fresh :: WebApp where
  "ex_fresh =
     \<lparr>Name = ''shop'', Namespace = ''default'', UID = ''u-1'', Generation = 1,
      DeletionTimestamp = None, Finalizers = [], Spec_Image = ''app:1.0'',
      Spec_Replicas = Some 2, Spec_Port = 8080, Status_AvailableReplicas = 0,
      Status_Conditions = []\<rparr>"

definition ex_ready :: WebApp where
  "ex_ready = ex_fresh\<lparr>Finalizers := [''app.54b3r.io/finalizer'']\<rparr>"

definition ex_deleting :: WebApp where
  "ex_deleting = ex_ready\<lparr>DeletionTimestamp := Some 40\<rparr>"

text \<open>The deleted WebApp when another controller's finalizer is listed as well.\<close>

definition ex_held :: WebApp where
  "ex_held = ex_deleting\<lparr>Finalizers := [''example.com/backup'', ''app.54b3r.io/finalizer'']\<rparr>"

text \<open>
  The registered WebApp after its spec has been edited once, still carrying the Available
  condition written before the edit.
\<close>

definition ex_edited :: WebApp where
  "ex_edited =
     ex_ready\<lparr>Generation := 2,
       Status_Conditions :=
         [\<lparr>cond_Type = ''Available'', cond_Status = ConditionFalse,
           cond_Reason = ''DeploymentUnavailable'',
           cond_Message = ''no replicas are available yet'',
           cond_ObservedGeneration = 1, cond_LastTransitionTime = 50\<rparr>]\<rparr>"

text \<open>The same WebApp after a pass that failed at the Deployment.\<close>

definition ex_degraded :: WebApp where
  "ex_degraded =
     ex_ready\<lparr>Status_Conditions :=
       [\<lparr>cond_Type = ''Progressing'', cond_Status = ConditionTrue,
         cond_Reason = ''Reconciling'', cond_Message = ''reconciliation in progress'',
         cond_ObservedGeneration = 1, cond_LastTransitionTime = 30\<rparr>,
        \<lparr>cond_Type = ''Degraded'', cond_Status = ConditionTrue,
         cond_Reason = ''DeploymentFailed'',
         cond_Message = ''getting deployment: etcd timeout'',
         cond_ObservedGeneration = 1, cond_LastTransitionTime = 30\<rparr>]\<rparr>"

text \<open>
  A Deployment and a Service for shop that other writers have touched: a sidecar
  container, an annotation, a rollout strategy, an assigned cluster IP.
\<close>

definition ex_deployment :: Deployment where
  "ex_deployment =
     \<lparr>d_Name = ''shop'', d_Namespace = ''default'',
      d_OwnerReferences = [\<lparr>or_Kind = ''WebApp'', or_Name = ''shop'', or_UID = ''u-1'',
                            or_Controller = True\<rparr>],
      d_Replicas = Some 1,
      d_Selector = labelsForWebApp ''shop'',
      d_TemplateLabels = labelsForWebApp ''shop'',
      d_Containers =
        [\<lparr>ctr_Name = ''webapp'', ctr_Image = ''app:0.9'',
          ctr_Ports = [\<lparr>cp_ContainerPort = 8000, cp_Protocol = ''TCP''\<rparr>],
          ctr_Other = [(''resources.limits.cpu'', ''500m'')]\<rparr>,
         \<lparr>ctr_Name = ''proxy'', ctr_Image = ''mesh/proxy:2'', ctr_Ports = [],
          ctr_Other = []\<rparr>],
      d_Other = [(''metadata.annotations.team'', ''payments''),
                 (''spec.strategy.type'', ''Recreate'')],
      d_AvailableReplicas = 2\<rparr>"

definition ex_service :: Service where
  "ex_service =
     \<lparr>s_Name = ''shop'', s_Namespace = ''default'',
      s_OwnerReferences = [\<lparr>or_Kind = ''WebApp'', or_Name = ''shop'', or_UID = ''u-1'',
                            or_Controller = True\<rparr>],
      s_Selector = [(''app'', ''old'')],
      s_Ports = [\<lparr>sp_Port = 8000, sp_TargetPort = IntVal 8000, sp_Protocol = ''TCP''\<rparr>],
      s_Type = ''ClusterIP'',
      s_Other = [(''spec.clusterIP'', ''10.0.0.7'')]\<rparr>"

text \<open>
  A cluster holding the given WebApp, and possibly its children, under \<open>ex_key\<close>, with
  the given outcomes for the coming store calls.
\<close>

definition ex_cluster ::
  "WebApp \<Rightarrow> Deployment option \<Rightarrow> Service option \<Rightarrow> outcome list \<Rightarrow> cluster" where
  "ex_cluster x d sv oc =
     \<lparr>webapps = (\<lambda>k. if k = ex_key then Some x else None),
      deployments = (\<lambda>k. if k = ex_key then d else None),
      services = (\<lambda>k. if k = ex_key then sv else None),
      scheme_registered = True, clock = 50, script = oc, trace = []\<rparr>"

section \<open>The store calls and the library helpers\<close>

lemma issue_eq: "issue c w = (coming w, issued c w)"
  by (cases "script w") (simp_all add: issue_def next_outcome_def coming_def issued_def)

lemma issued_fields [simp]:
  "webapps (issued c w) = webapps w"
  "deployments (issued c w) = deployments w"
  "services (issued c w) = services w"
  "scheme_registered (issued c w) = scheme_registered w"
  "clock (issued c w) = clock w"
  "trace (issued c w) = trace w @ [c]"
  "script (issued c w) = tl (script w)"
  by (simp_all add: issued_def)

lemma calm_issued [simp]: "calm w \<Longrightarrow> calm (issued c w)"
  by (cases "script w") (simp_all add: calm_def issued_def)

lemma calm_coming [simp]: "calm w \<Longrightarrow> coming w = Succeed"
  by (cases "script w") (simp_all add: calm_def coming_def)

lemma coming_outcome_at: "coming w = outcome_at w 0"
  by (cases "script w") (simp_all add: coming_def outcome_at_def)

lemma outcome_at_issued [simp]: "outcome_at (issued c w) n = outcome_at w (Suc n)"
  by (cases "script w") (simp_all add: outcome_at_def issued_def)

lemma pass_calls_append [simp]: "trace w' = trace w @ cs \<Longrightarrow> pass_calls w w' = cs"
  by (simp add: pass_calls_def)

text \<open>Unfolding sets for evaluating the model on a concrete cluster.\<close>

lemmas api_defs = get_webapp_def update_webapp_def update_webapp_status_def get_deployment_def
  create_deployment_def update_deployment_def get_service_def create_service_def update_service_def
  issue_eq issued_def coming_def wkey_def dkey_def skey_def not_found_def already_exists_def
lemmas ctl_defs = Reconcile_def Reconcile_children_def Reconcile_status_def reconcileDeployment_def
  reconcileService_def setCondition_def cleanupChildResources_def desiredDeployment_def desiredService_def
  mergeDeployment_def mergeService_def SetControllerReference_def IsZero_def ContainsFinalizer_def
  AddFinalizer_def RemoveFinalizer_def IgnoreNotFound_def merge_condition_def labelsForWebApp_def
  TypeAvailable_def TypeProgressing_def TypeDegraded_def webappFinalizer_def Result_empty_def
lemmas ex_defs = ex_key_def ex_fresh_def ex_ready_def ex_deleting_def ex_held_def ex_edited_def
  ex_degraded_def
  ex_deployment_def ex_service_def ex_cluster_def

text \<open>What a consumer finds for a kind after \<open>SetStatusCondition\<close>.\<close>

lemma Find_Set:
  "FindStatusCondition (SetStatusCondition now cs n) ty =
     (if ty = cond_Type n
      then Some (case FindStatusCondition cs ty of
                   None \<Rightarrow> (if cond_LastTransitionTime n = 0
                              then n\<lparr>cond_LastTransitionTime := now\<rparr> else n)
                 | Some c \<Rightarrow> merge_condition now c n)
      else FindStatusCondition cs ty)"
  by (induction cs) (auto simp: FindStatusCondition_def merge_condition_def Let_def)

lemma merge_condition_fields:
  "cond_Type (merge_condition now c n) = cond_Type c"
  "cond_Status (merge_condition now c n) = cond_Status n"
  "cond_Reason (merge_condition now c n) = cond_Reason n"
  "cond_Message (merge_condition now c n) = cond_Message n"
  "cond_ObservedGeneration (merge_condition now c n) = cond_ObservedGeneration n"
  "cond_LastTransitionTime (merge_condition now c n) =
     (if cond_Status c \<noteq> cond_Status n
      then (if cond_LastTransitionTime n \<noteq> 0 then cond_LastTransitionTime n else now)
      else cond_LastTransitionTime c)"
  by (simp_all add: merge_condition_def Let_def)

text \<open>
  Within a pass the caller's WebApp and the stored one differ at most in their status,
  so a status write stores the caller's object as it is.
\<close>

lemma update_webapp_status_synced:
  assumes "webapps w (wkey x) = Some old" "same_but_status old x"
  shows "update_webapp_status x w =
     (case coming w of
        Succeed \<Rightarrow>
          (None, x, (issued (UpdateWebAppStatus x) w)\<lparr>webapps := (webapps w)(wkey x \<mapsto> x)\<rparr>)
      | Fail m \<Rightarrow> (Some (Transient m), x, issued (UpdateWebAppStatus x) w))"
  using assms
  by (simp add: update_webapp_status_def issue_eq same_but_status_def Let_def
      split: outcome.splits)

section \<open>Condition writes\<close>

lemma setCondition_conditions:
  "setCondition x ty s r m w = (e, x', w') \<Longrightarrow>
     Status_Conditions x' =
       SetStatusCondition (clock w) (Status_Conditions x)
         \<lparr>cond_Type = ty, cond_Status = s, cond_Reason = r, cond_Message = m,
          cond_ObservedGeneration = Generation x, cond_LastTransitionTime = 0\<rparr>"
  by (auto simp: setCondition_def update_webapp_status_def issue_eq Let_def
      split: outcome.splits option.splits)

lemma setCondition_stored:
  "setCondition x ty s r m w = (None, x', w') \<Longrightarrow>
     map_option Status_Conditions (webapps w' (wkey x)) = Some (Status_Conditions x')"
  by (auto simp: setCondition_def update_webapp_status_def issue_eq Let_def wkey_def
      split: outcome.splits option.splits)

lemma stamp_after_setCondition:
  "setCondition x ty s r m w = (e, x', w') \<Longrightarrow>
     map_option cond_ObservedGeneration (condition_of x' ty) = Some (Generation x)"
  by (simp add: condition_of_def setCondition_conditions Find_Set merge_condition_fields
      split: option.splits)

lemma setCondition_trace:
  "setCondition x ty s r m w = (e, x', w') \<Longrightarrow>
     trace w' = trace w @
       [UpdateWebAppStatus (x\<lparr>Status_Conditions :=
          SetStatusCondition (clock w) (Status_Conditions x)
            \<lparr>cond_Type = ty, cond_Status = s, cond_Reason = r, cond_Message = m,
             cond_ObservedGeneration = Generation x, cond_LastTransitionTime = 0\<rparr>\<rparr>)]
     \<and> clock w' = clock w"
  by (auto simp: setCondition_def update_webapp_status_def issue_eq Let_def
      split: outcome.splits option.splits)

lemma setCondition_accepted:
  "setCondition x ty s r m w = (e, x', w') \<Longrightarrow>
     (e = None) = (outcome_at w 0 = Succeed \<and> webapps w (wkey x) \<noteq> None)"
  by (auto simp: setCondition_def update_webapp_status_def issue_eq coming_outcome_at Let_def
        wkey_def
      split: outcome.splits option.splits)

lemma setCondition_refused:
  "setCondition x ty s r m w = (Some e, x', w') \<Longrightarrow> webapps w' = webapps w"
  by (auto simp: setCondition_def update_webapp_status_def issue_eq Let_def
      split: outcome.splits option.splits)

lemma stored_after_setCondition:
  assumes "setCondition x ty s r m w = (None, x', w')"
  shows "stored_condition w' (wkey x) t = condition_of x' t"
proof -
  from setCondition_stored [OF assms]
  obtain z where "webapps w' (wkey x) = Some z" "Status_Conditions z = Status_Conditions x'"
    by auto
  then show ?thesis
    by (simp add: stored_condition_def condition_of_def)
qed

text \<open>
  C9. Every condition write issues exactly one status write, and the object it carries
  has the condition of the written kind stamped with the generation of the WebApp the
  condition was computed from; the caller's object carries the same stamp. The store
  accepts the write exactly when the call goes through and the WebApp is there: then the
  stored condition of that kind carries the stamp, the stored conditions are those of
  the caller's object, and the stored conditions of other kinds are as the caller had
  them before. A refused write leaves the stored WebApp as it was. Hence of two accepted
  writes for one kind, the later one, made at a generation that is not smaller, leaves a
  stored observed generation that is not smaller.
\<close>

theorem C9_observedGeneration_stamped:
  assumes first: "setCondition x ty s1 r1 m1 w = (e1, x', w')"
    and later: "setCondition y ty s2 r2 m2 v = (e2, y', v')"
    and gen: "Generation x \<le> Generation y"
  shows "map_option cond_ObservedGeneration (condition_of x' ty) = Some (Generation x)
     \<and> (\<exists>xw. pass_calls w w' = [UpdateWebAppStatus xw] \<and> wkey xw = wkey x
            \<and> map_option cond_ObservedGeneration (condition_of xw ty) = Some (Generation x))
     \<and> (e1 = None) = (outcome_at w 0 = Succeed \<and> webapps w (wkey x) \<noteq> None)
     \<and> (e1 = None \<longrightarrow>
          map_option Status_Conditions (webapps w' (wkey x)) = Some (Status_Conditions x')
          \<and> map_option cond_ObservedGeneration (stored_condition w' (wkey x) ty)
              = Some (Generation x)
          \<and> (\<forall>ty'. ty' \<noteq> ty \<longrightarrow> stored_condition w' (wkey x) ty' = condition_of x ty'))
     \<and> (e1 \<noteq> None \<longrightarrow> webapps w' = webapps w)
     \<and> (\<forall>ty'. ty' \<noteq> ty \<longrightarrow> condition_of x' ty' = condition_of x ty')
     \<and> (\<exists>g1 g2. map_option cond_ObservedGeneration (condition_of x' ty) = Some g1
            \<and> map_option cond_ObservedGeneration (condition_of y' ty) = Some g2
            \<and> g1 \<le> g2)
     \<and> (e1 = None \<and> e2 = None \<longrightarrow>
          (\<exists>g1 g2. map_option cond_ObservedGeneration (stored_condition w' (wkey x) ty) = Some g1
            \<and> map_option cond_ObservedGeneration (stored_condition v' (wkey y) ty) = Some g2
            \<and> g1 \<le> g2))"
proof -
  let ?xw = "x\<lparr>Status_Conditions :=
          SetStatusCondition (clock w) (Status_Conditions x)
            \<lparr>cond_Type = ty, cond_Status = s1, cond_Reason = r1, cond_Message = m1,
             cond_ObservedGeneration = Generation x, cond_LastTransitionTime = 0\<rparr>\<rparr>"
  have a: "map_option cond_ObservedGeneration (condition_of x' ty) = Some (Generation x)"
    using first by (rule stamp_after_setCondition)
  have b: "map_option cond_ObservedGeneration (condition_of y' ty) = Some (Generation y)"
    using later by (rule stamp_after_setCondition)
  have d: "\<forall>ty'. ty' \<noteq> ty \<longrightarrow> condition_of x' ty' = condition_of x ty'"
    using setCondition_conditions [OF first] by (simp add: condition_of_def Find_Set)
  have t: "pass_calls w w' = [UpdateWebAppStatus ?xw]"
    using setCondition_trace [OF first] by simp
  have tw: "wkey ?xw = wkey x
      \<and> map_option cond_ObservedGeneration (condition_of ?xw ty) = Some (Generation x)"
    by (simp add: condition_of_def Find_Set merge_condition_fields wkey_def
        split: option.splits)
  have i: "\<exists>xw. pass_calls w w' = [UpdateWebAppStatus xw] \<and> wkey xw = wkey x
            \<and> map_option cond_ObservedGeneration (condition_of xw ty) = Some (Generation x)"
    using t tw by blast
  have acc: "(e1 = None) = (outcome_at w 0 = Succeed \<and> webapps w (wkey x) \<noteq> None)"
    using first by (rule setCondition_accepted)
  have st: "e1 = None \<longrightarrow>
          map_option Status_Conditions (webapps w' (wkey x)) = Some (Status_Conditions x')
          \<and> map_option cond_ObservedGeneration (stored_condition w' (wkey x) ty)
              = Some (Generation x)
          \<and> (\<forall>ty'. ty' \<noteq> ty \<longrightarrow> stored_condition w' (wkey x) ty' = condition_of x ty')"
  proof
    assume n: "e1 = None"
    have f: "setCondition x ty s1 r1 m1 w = (None, x', w')"
      using first n by simp
    show "map_option Status_Conditions (webapps w' (wkey x)) = Some (Status_Conditions x')
          \<and> map_option cond_ObservedGeneration (stored_condition w' (wkey x) ty)
              = Some (Generation x)
          \<and> (\<forall>ty'. ty' \<noteq> ty \<longrightarrow> stored_condition w' (wkey x) ty' = condition_of x ty')"
      using setCondition_stored [OF f] a d by (simp add: stored_after_setCondition [OF f])
  qed
  have rf: "e1 \<noteq> None \<longrightarrow> webapps w' = webapps w"
    using first setCondition_refused by (cases e1) auto
  have m: "\<exists>g1 g2. map_option cond_ObservedGeneration (condition_of x' ty) = Some g1
            \<and> map_option cond_ObservedGeneration (condition_of y' ty) = Some g2
            \<and> g1 \<le> g2"
    using a b gen by auto
  have sm: "e1 = None \<and> e2 = None \<longrightarrow>
          (\<exists>g1 g2. map_option cond_ObservedGeneration (stored_condition w' (wkey x) ty) = Some g1
            \<and> map_option cond_ObservedGeneration (stored_condition v' (wkey y) ty) = Some g2
            \<and> g1 \<le> g2)"
  proof
    assume n: "e1 = None \<and> e2 = None"
    have f: "setCondition x ty s1 r1 m1 w = (None, x', w')"
      using first n by simp
    have l: "setCondition y ty s2 r2 m2 v = (None, y', v')"
      using later n by simp
    show "\<exists>g1 g2. map_option cond_ObservedGeneration (stored_condition w' (wkey x) ty) = Some g1
            \<and> map_option cond_ObservedGeneration (stored_condition v' (wkey y) ty) = Some g2
            \<and> g1 \<le> g2"
      using a b gen
      by (auto simp: stored_after_setCondition [OF f] stored_after_setCondition [OF l])
  qed
  from a i acc st rf d m sm show ?thesis
    by blast
qed

theorem C9_witness:
  "Generation ex_ready \<le> Generation ex_edited
   \<and> fst (setCondition ex_ready TypeAvailable ConditionFalse
            ''DeploymentUnavailable'' ''no replicas are available yet''
            (ex_cluster ex_ready None None [])) = None
   \<and> map_option Status_Conditions
        (webapps (snd (snd (setCondition ex_ready TypeAvailable ConditionFalse
            ''DeploymentUnavailable'' ''no replicas are available yet''
            (ex_cluster ex_ready None None [])))) ex_key)
       = Some (Status_Conditions ex_edited)
   \<and> map_option cond_ObservedGeneration
        (stored_condition (snd (snd (setCondition ex_ready TypeAvailable ConditionFalse
            ''DeploymentUnavailable'' ''no replicas are available yet''
            (ex_cluster ex_ready None None [])))) ex_key TypeAvailable) = Some 1
   \<and> fst (setCondition ex_edited TypeAvailable ConditionTrue
            ''DeploymentAvailable'' ''2 replica(s) available''
            (ex_cluster ex_edited None None [])) = None
   \<and> map_option cond_ObservedGeneration
        (stored_condition (snd (snd (setCondition ex_edited TypeAvailable ConditionTrue
            ''DeploymentAvailable'' ''2 replica(s) available''
            (ex_cluster ex_edited None None [])))) ex_key TypeAvailable) = Some 2"
proof -
  let ?p = "setCondition ex_ready TypeAvailable ConditionFalse
      ''DeploymentUnavailable'' ''no replicas are available yet'' (ex_cluster ex_ready None None [])"
  let ?q = "setCondition ex_edited TypeAvailable ConditionTrue
      ''DeploymentAvailable'' ''2 replica(s) available'' (ex_cluster ex_edited None None [])"
  have g: "Generation ex_ready \<le> Generation ex_edited"
    by (simp add: ex_defs)
  have g1: "Generation ex_ready = 1" and g2: "Generation ex_edited = 2"
    by (simp_all add: ex_defs)
  have k: "wkey ex_ready = ex_key" "wkey ex_edited = ex_key"
    by (simp_all add: ex_defs wkey_def)
  have o: "outcome_at (ex_cluster ex_ready None None []) 0 = Succeed"
    "webapps (ex_cluster ex_ready None None []) ex_key \<noteq> None"
    "outcome_at (ex_cluster ex_edited None None []) 0 = Succeed"
    "webapps (ex_cluster ex_edited None None []) ex_key \<noteq> None"
    by (simp_all add: outcome_at_def ex_cluster_def)
  have a: "?p = (fst ?p, fst (snd ?p), snd (snd ?p))"
    by simp
  have b: "?q = (fst ?q, fst (snd ?q), snd (snd ?q))"
    by simp
  have c: "map_option Status_Conditions (webapps (snd (snd ?p)) ex_key)
       = Some (Status_Conditions ex_edited)"
    by (simp add: api_defs ctl_defs ex_defs Let_def)
  have "fst ?p = None
      \<and> map_option cond_ObservedGeneration (stored_condition (snd (snd ?p)) ex_key TypeAvailable)
          = Some (Generation ex_ready)"
    using C9_observedGeneration_stamped [OF a b g] k o by simp
  moreover have "fst ?q = None
      \<and> map_option cond_ObservedGeneration (stored_condition (snd (snd ?q)) ex_key TypeAvailable)
          = Some (Generation ex_edited)"
    using C9_observedGeneration_stamped [OF b b] k o by simp
  ultimately show ?thesis
    using g c g1 g2 by simp
qed

section \<open>Child synchronisation\<close>

text \<open>
  C6. When the child already exists, a sync call that succeeds stores the existing
  object with only the owned fields overwritten: for the Deployment the replica count
  and the image and port list of the first container, for the Service the port mapping
  and the selector. Every other field, every other container and the status are as they
  were; a sync call that does not succeed leaves the stored child untouched. The other
  tables are never written.
\<close>

theorem C6_sync_touches_owned_fields_only:
  "(deployments w (Namespace x, Name x) = Some d \<and> dkey d = (Namespace x, Name x) \<longrightarrow>
      (case reconcileDeployment x w of
         (r, w') \<Rightarrow>
           (if r = Returns None
            then \<exists>c cs. d_Containers d = c # cs \<and>
                   deployments w' = (deployments w)((Namespace x, Name x) \<mapsto>
                     d\<lparr>d_Replicas := Some (case Spec_Replicas x of None \<Rightarrow> 1 | Some n \<Rightarrow> n),
                       d_Containers :=
                         c\<lparr>ctr_Image := Spec_Image x,
                           ctr_Ports := [\<lparr>cp_ContainerPort = Spec_Port x,
                                          cp_Protocol = ''TCP''\<rparr>]\<rparr> # cs\<rparr>)
            else deployments w' = deployments w)
           \<and> services w' = services w \<and> webapps w' = webapps w))
   \<and> (services w (Namespace x, Name x) = Some sv \<and> skey sv = (Namespace x, Name x) \<longrightarrow>
      (case reconcileService x w of
         (r, w') \<Rightarrow>
           (if r = Returns None
            then services w' = (services w)((Namespace x, Name x) \<mapsto>
                   sv\<lparr>s_Ports := [\<lparr>sp_Port = Spec_Port x,
                                    sp_TargetPort = IntVal (Spec_Port x),
                                    sp_Protocol = ''TCP''\<rparr>],
                      s_Selector := labelsForWebApp (Name x)\<rparr>)
            else services w' = services w)
           \<and> deployments w' = deployments w \<and> webapps w' = webapps w))"
proof (intro conjI impI)
  assume h: "deployments w (Namespace x, Name x) = Some d \<and> dkey d = (Namespace x, Name x)"
  then have k: "(d_Namespace d, d_Name d) = (Namespace x, Name x)"
    by (simp add: dkey_def)
  show "case reconcileDeployment x w of
         (r, w') \<Rightarrow>
           (if r = Returns None
            then \<exists>c cs. d_Containers d = c # cs \<and>
                   deployments w' = (deployments w)((Namespace x, Name x) \<mapsto>
                     d\<lparr>d_Replicas := Some (case Spec_Replicas x of None \<Rightarrow> 1 | Some n \<Rightarrow> n),
                       d_Containers :=
                         c\<lparr>ctr_Image := Spec_Image x,
                           ctr_Ports := [\<lparr>cp_ContainerPort = Spec_Port x,
                                          cp_Protocol = ''TCP''\<rparr>]\<rparr> # cs\<rparr>)
            else deployments w' = deployments w)
           \<and> services w' = services w \<and> webapps w' = webapps w"
    using h k
    by (cases "d_Containers d"; cases "coming w";
        cases "coming (issued (GetDeployment (Namespace x, Name x)) w)")
       (simp_all add: reconcileDeployment_def SetControllerReference_def get_deployment_def
        update_deployment_def mergeDeployment_def desiredDeployment_def issue_eq dkey_def Let_def)
next
  assume h: "services w (Namespace x, Name x) = Some sv \<and> skey sv = (Namespace x, Name x)"
  show "case reconcileService x w of
         (r, w') \<Rightarrow>
           (if r = Returns None
            then services w' = (services w)((Namespace x, Name x) \<mapsto>
                   sv\<lparr>s_Ports := [\<lparr>sp_Port = Spec_Port x,
                                    sp_TargetPort = IntVal (Spec_Port x),
                                    sp_Protocol = ''TCP''\<rparr>],
                      s_Selector := labelsForWebApp (Name x)\<rparr>)
            else services w' = services w)
           \<and> deployments w' = deployments w \<and> webapps w' = webapps w"
    using h
    by (cases "coming w"; cases "coming (issued (GetService (Namespace x, Name x)) w)")
       (simp_all add: reconcileService_def SetControllerReference_def get_service_def
        update_service_def mergeService_def desiredService_def issue_eq skey_def Let_def)
qed

theorem C6_witness:
  "deployments (ex_cluster ex_ready (Some ex_deployment) (Some ex_service) []) (Namespace ex_ready, Name ex_ready) = Some ex_deployment
   \<and> dkey ex_deployment = (Namespace ex_ready, Name ex_ready)
   \<and> services (ex_cluster ex_ready (Some ex_deployment) (Some ex_service) []) (Namespace ex_ready, Name ex_ready) = Some ex_service
   \<and> skey ex_service = (Namespace ex_ready, Name ex_ready)
   \<and> fst (reconcileDeployment ex_ready (ex_cluster ex_ready (Some ex_deployment) (Some ex_service) [])) = Returns None
   \<and> map_option d_Other (deployments (snd (reconcileDeployment ex_ready
         (ex_cluster ex_ready (Some ex_deployment) (Some ex_service) []))) ex_key)
       = Some [(''metadata.annotations.team'', ''payments''), (''spec.strategy.type'', ''Recreate'')]
   \<and> map_option d_Replicas (deployments (snd (reconcileDeployment ex_ready
         (ex_cluster ex_ready (Some ex_deployment) (Some ex_service) []))) ex_key) = Some (Some 2)
   \<and> map_option (map ctr_Name \<circ> d_Containers) (deployments (snd (reconcileDeployment ex_ready
         (ex_cluster ex_ready (Some ex_deployment) (Some ex_service) []))) ex_key) = Some [''webapp'', ''proxy'']
   \<and> fst (reconcileService ex_ready (ex_cluster ex_ready (Some ex_deployment) (Some ex_service) [])) = Returns None
   \<and> map_option s_Other (services (snd (reconcileService ex_ready
         (ex_cluster ex_ready (Some ex_deployment) (Some ex_service) []))) ex_key)
       = Some [(''spec.clusterIP'', ''10.0.0.7'')]"
  using C6_sync_touches_owned_fields_only
    [of "ex_cluster ex_ready (Some ex_deployment) (Some ex_service) []" ex_ready ex_deployment ex_service]
  by (simp add: api_defs ctl_defs ex_defs Let_def)

section \<open>The finalizer protocol\<close>

lemma get_webapp_eq:
  "get_webapp k w =
     (case coming w of
        Fail m \<Rightarrow> (Inl (Transient m), issued (GetWebApp k) w)
      | Succeed \<Rightarrow>
          (case webapps w k of
             None \<Rightarrow> (Inl (not_found ''webapps.app.54b3r.io'' (snd k)), issued (GetWebApp k) w)
           | Some x \<Rightarrow> (Inr x, issued (GetWebApp k) w)))"
  by (simp add: get_webapp_def issue_eq split: outcome.splits)

lemma update_webapp_found:
  assumes "webapps w (wkey x) = Some old"
  shows "update_webapp x w =
     (case coming w of
        Succeed \<Rightarrow>
          (None, x\<lparr>Status_AvailableReplicas := Status_AvailableReplicas old,
                    Status_Conditions := Status_Conditions old\<rparr>,
           (issued (UpdateWebApp x) w)\<lparr>webapps :=
              (if DeletionTimestamp x \<noteq> None \<and> Finalizers x = []
               then (webapps w)(wkey x := None)
               else (webapps w)(wkey x \<mapsto>
                      x\<lparr>Status_AvailableReplicas := Status_AvailableReplicas old,
                        Status_Conditions := Status_Conditions old\<rparr>))\<rparr>)
      | Fail m \<Rightarrow> (Some (Transient m), x, issued (UpdateWebApp x) w))"
  using assms
  by (simp add: update_webapp_def issue_eq Let_def split: outcome.splits)

lemma wkey_Finalizers [simp]: "wkey (x\<lparr>Finalizers := fs\<rparr>) = wkey x"
  by (simp add: wkey_def)

text \<open>
  C1. On a fresh WebApp (no finalizer, no deletion requested) a pass issues no child
  mutation and leaves the Deployment and Service tables as they are. When the fetch and
  the update go through, the only calls are the fetch and an update that appends the
  finalizer, the stored WebApp carries the finalizer afterwards, and the pass returns
  \<open>Requeue = True\<close> with no error; when a call fails, the pass returns that error. Hence
  whenever a pass issues a child mutation, the WebApp it fetched from the store already
  carried the finalizer.
\<close>

theorem C1_finalizer_before_children:
  "(webapps w req = Some x \<and> wkey x = req \<and> IsZero (DeletionTimestamp x)
      \<and> \<not> ContainsFinalizer x webappFinalizer \<longrightarrow>
      (case Reconcile req w of
         (r, w') \<Rightarrow>
           deployments w' = deployments w \<and> services w' = services w
           \<and> \<not> list_ex is_child_mutation (pass_calls w w')
           \<and> (case outcome_at w 0 of
                 Fail m \<Rightarrow>
                   r = Returns (Result_empty, Some (ApiError (Transient m)))
                   \<and> webapps w' = webapps w
               | Succeed \<Rightarrow>
                   pass_calls w w' =
                     [GetWebApp req,
                      UpdateWebApp (x\<lparr>Finalizers := Finalizers x @ [webappFinalizer]\<rparr>)]
                   \<and> (case outcome_at w 1 of
                         Succeed \<Rightarrow>
                           r = Returns (Result_empty\<lparr>Requeue := True\<rparr>, None)
                           \<and> webapps w' = (webapps w)(req \<mapsto>
                                 x\<lparr>Finalizers := Finalizers x @ [webappFinalizer]\<rparr>)
                       | Fail m \<Rightarrow>
                           r = Returns (Result_empty,
                                 Some (Wrapped ''adding finalizer'' (ApiError (Transient m))))
                           \<and> webapps w' = webapps w))))
   \<and> (list_ex is_child_mutation (pass_calls w (snd (Reconcile req w))) \<longrightarrow>
        (\<exists>y. webapps w req = Some y \<and> ContainsFinalizer y webappFinalizer))"
proof (intro conjI impI)
  assume h: "webapps w req = Some x \<and> wkey x = req \<and> IsZero (DeletionTimestamp x)
      \<and> \<not> ContainsFinalizer x webappFinalizer"
  then have s: "webapps w (wkey x) = Some x"
    by simp
  have u: "update_webapp (x\<lparr>Finalizers := Finalizers x @ [webappFinalizer]\<rparr>)
             (issued (GetWebApp req) w) =
     (case outcome_at w 1 of
        Succeed \<Rightarrow>
          (None, x\<lparr>Finalizers := Finalizers x @ [webappFinalizer]\<rparr>,
           (issued (UpdateWebApp (x\<lparr>Finalizers := Finalizers x @ [webappFinalizer]\<rparr>))
              (issued (GetWebApp req) w))\<lparr>webapps := (webapps w)(wkey x \<mapsto>
               x\<lparr>Finalizers := Finalizers x @ [webappFinalizer]\<rparr>)\<rparr>)
      | Fail m \<Rightarrow> (Some (Transient m), x\<lparr>Finalizers := Finalizers x @ [webappFinalizer]\<rparr>,
           issued (UpdateWebApp (x\<lparr>Finalizers := Finalizers x @ [webappFinalizer]\<rparr>))
              (issued (GetWebApp req) w)))"
    using s
    by (subst update_webapp_found [where old = x])
       (simp_all add: coming_outcome_at split: outcome.splits)
  show "case Reconcile req w of
         (r, w') \<Rightarrow>
           deployments w' = deployments w \<and> services w' = services w
           \<and> \<not> list_ex is_child_mutation (pass_calls w w')
           \<and> (case outcome_at w 0 of
                 Fail m \<Rightarrow>
                   r = Returns (Result_empty, Some (ApiError (Transient m)))
                   \<and> webapps w' = webapps w
               | Succeed \<Rightarrow>
                   pass_calls w w' =
                     [GetWebApp req,
                      UpdateWebApp (x\<lparr>Finalizers := Finalizers x @ [webappFinalizer]\<rparr>)]
                   \<and> (case outcome_at w 1 of
                         Succeed \<Rightarrow>
                           r = Returns (Result_empty\<lparr>Requeue := True\<rparr>, None)
                           \<and> webapps w' = (webapps w)(req \<mapsto>
                                 x\<lparr>Finalizers := Finalizers x @ [webappFinalizer]\<rparr>)
                       | Fail m \<Rightarrow>
                           r = Returns (Result_empty,
                                 Some (Wrapped ''adding finalizer'' (ApiError (Transient m))))
                           \<and> webapps w' = webapps w))"
    using h
    by (cases "outcome_at w 0"; cases "outcome_at w 1")
       (simp_all add: Reconcile_def get_webapp_eq coming_outcome_at u AddFinalizer_def
          ContainsFinalizer_def IgnoreNotFound_def)
next
  assume c: "list_ex is_child_mutation (pass_calls w (snd (Reconcile req w)))"
  show "\<exists>y. webapps w req = Some y \<and> ContainsFinalizer y webappFinalizer"
  proof (rule ccontr)
    assume n: "\<not> (\<exists>y. webapps w req = Some y \<and> ContainsFinalizer y webappFinalizer)"
    have "\<not> list_ex is_child_mutation (pass_calls w (snd (Reconcile req w)))"
      using n
      by (auto simp: Reconcile_def get_webapp_eq update_webapp_def issue_eq
          cleanupChildResources_def Let_def
          split: outcome.splits option.splits)
    with c show False by simp
  qed
qed

theorem C1_witness:
  "webapps (ex_cluster ex_fresh None None []) ex_key = Some ex_fresh
   \<and> wkey ex_fresh = ex_key \<and> IsZero (DeletionTimestamp ex_fresh)
   \<and> \<not> ContainsFinalizer ex_fresh webappFinalizer
   \<and> fst (Reconcile ex_key (ex_cluster ex_fresh None None []))
       = Returns (Result_empty\<lparr>Requeue := True\<rparr>, None)
   \<and> webapps (snd (Reconcile ex_key (ex_cluster ex_fresh None None []))) ex_key = Some ex_ready
   \<and> deployments (snd (Reconcile ex_key (ex_cluster ex_fresh None None []))) ex_key = None
   \<and> services (snd (Reconcile ex_key (ex_cluster ex_fresh None None []))) ex_key = None
   \<and> list_ex is_child_mutation
        (pass_calls (ex_cluster ex_ready None None [])
           (snd (Reconcile ex_key (ex_cluster ex_ready None None []))))
   \<and> ContainsFinalizer ex_ready webappFinalizer"
proof -
  have a: "webapps (ex_cluster ex_fresh None None []) ex_key = Some ex_fresh
     \<and> wkey ex_fresh = ex_key \<and> IsZero (DeletionTimestamp ex_fresh)
     \<and> \<not> ContainsFinalizer ex_fresh webappFinalizer"
    by (simp add: ex_defs wkey_def IsZero_def ContainsFinalizer_def webappFinalizer_def)
  have o: "outcome_at (ex_cluster ex_fresh None None []) 0 = Succeed"
    "outcome_at (ex_cluster ex_fresh None None []) 1 = Succeed"
    by (simp_all add: outcome_at_def ex_cluster_def)
  have f: "ex_fresh\<lparr>Finalizers := Finalizers ex_fresh @ [webappFinalizer]\<rparr> = ex_ready"
    by (simp add: ex_ready_def ex_fresh_def webappFinalizer_def)
  have b: "list_ex is_child_mutation
        (pass_calls (ex_cluster ex_ready None None [])
           (snd (Reconcile ex_key (ex_cluster ex_ready None None []))))"
    by (simp add: api_defs ctl_defs ex_defs pass_calls_def Let_def)
  have c: "ContainsFinalizer ex_ready webappFinalizer"
    by (simp add: ex_defs ContainsFinalizer_def webappFinalizer_def)
  from C1_finalizer_before_children
         [of "ex_cluster ex_fresh None None []" ex_key ex_fresh, THEN conjunct1] a o f
  have "fst (Reconcile ex_key (ex_cluster ex_fresh None None []))
       = Returns (Result_empty\<lparr>Requeue := True\<rparr>, None)
   \<and> webapps (snd (Reconcile ex_key (ex_cluster ex_fresh None None []))) ex_key = Some ex_ready
   \<and> deployments (snd (Reconcile ex_key (ex_cluster ex_fresh None None []))) ex_key = None
   \<and> services (snd (Reconcile ex_key (ex_cluster ex_fresh None None []))) ex_key = None"
    by (simp add: split_beta ex_cluster_def)
  with a b c show ?thesis
    by simp
qed

text \<open>
  C2. On a WebApp whose deletion has been requested: cleanup issues no call and returns
  nil. With the finalizer present, the pass then issues one update that carries the
  WebApp without the finalizer. When that update goes through, the pass returns the
  empty result with no error, and the store no longer holds the WebApp if the finalizer
  was its last one, and holds it without the finalizer if others remain. When the update
  fails, the pass returns that error and the stored WebApp keeps the finalizer. With the
  finalizer absent the pass returns the empty result at once and writes nothing. The
  children are never touched.
\<close>

theorem C2_deletion_gated_by_finalizer:
  "webapps w req = Some x \<and> wkey x = req \<and> \<not> IsZero (DeletionTimestamp x) \<longrightarrow>
     cleanupChildResources x (issued (GetWebApp req) w) = (None, issued (GetWebApp req) w)
     \<and> (case Reconcile req w of
          (r, w') \<Rightarrow>
            deployments w' = deployments w \<and> services w' = services w
            \<and> (case outcome_at w 0 of
                  Fail m \<Rightarrow>
                    r = Returns (Result_empty, Some (ApiError (Transient m)))
                    \<and> webapps w' = webapps w \<and> pass_calls w w' = [GetWebApp req]
                | Succeed \<Rightarrow>
                    if ContainsFinalizer x webappFinalizer
                    then pass_calls w w' =
                           [GetWebApp req,
                            UpdateWebApp (x\<lparr>Finalizers :=
                               filter (\<lambda>e. e \<noteq> webappFinalizer) (Finalizers x)\<rparr>)]
                         \<and> (case outcome_at w 1 of
                               Succeed \<Rightarrow>
                                 r = Returns (Result_empty, None)
                                 \<and> webapps w' =
                                     (if filter (\<lambda>e. e \<noteq> webappFinalizer) (Finalizers x) = []
                                      then (webapps w)(req := None)
                                      else (webapps w)(req \<mapsto>
                                        x\<lparr>Finalizers :=
                                            filter (\<lambda>e. e \<noteq> webappFinalizer) (Finalizers x)\<rparr>))
                             | Fail m \<Rightarrow>
                                 r = Returns (Result_empty,
                                       Some (Wrapped ''removing finalizer'' (ApiError (Transient m))))
                                 \<and> webapps w' = webapps w)
                    else r = Returns (Result_empty, None)
                         \<and> webapps w' = webapps w \<and> pass_calls w w' = [GetWebApp req]))"
proof (intro impI)
  assume h: "webapps w req = Some x \<and> wkey x = req \<and> \<not> IsZero (DeletionTimestamp x)"
  then have s: "webapps w (wkey x) = Some x"
    by simp
  from h have d: "DeletionTimestamp x \<noteq> None"
    by (cases "DeletionTimestamp x") (simp_all add: IsZero_def)
  let ?y = "x\<lparr>Finalizers := filter (\<lambda>e. e \<noteq> webappFinalizer) (Finalizers x)\<rparr>"
  have u: "update_webapp ?y (issued (GetWebApp req) w) =
     (case outcome_at w 1 of
        Succeed \<Rightarrow>
          (None, ?y,
           (issued (UpdateWebApp ?y) (issued (GetWebApp req) w))
             \<lparr>webapps :=
                (if filter (\<lambda>e. e \<noteq> webappFinalizer) (Finalizers x) = []
                 then (webapps w)(wkey x := None)
                 else (webapps w)(wkey x \<mapsto> ?y))\<rparr>)
      | Fail m \<Rightarrow> (Some (Transient m), ?y,
           issued (UpdateWebApp ?y) (issued (GetWebApp req) w)))"
    using s d
    by (subst update_webapp_found [where old = x])
       (simp_all add: coming_outcome_at split: outcome.splits)
  show "cleanupChildResources x (issued (GetWebApp req) w) = (None, issued (GetWebApp req) w)
     \<and> (case Reconcile req w of
          (r, w') \<Rightarrow>
            deployments w' = deployments w \<and> services w' = services w
            \<and> (case outcome_at w 0 of
                  Fail m \<Rightarrow>
                    r = Returns (Result_empty, Some (ApiError (Transient m)))
                    \<and> webapps w' = webapps w \<and> pass_calls w w' = [GetWebApp req]
                | Succeed \<Rightarrow>
                    if ContainsFinalizer x webappFinalizer
                    then pass_calls w w' = [GetWebApp req, UpdateWebApp ?y]
                         \<and> (case outcome_at w 1 of
                               Succeed \<Rightarrow>
                                 r = Returns (Result_empty, None)
                                 \<and> webapps w' =
                                     (if filter (\<lambda>e. e \<noteq> webappFinalizer) (Finalizers x) = []
                                      then (webapps w)(req := None)
                                      else (webapps w)(req \<mapsto> ?y))
                             | Fail m \<Rightarrow>
                                 r = Returns (Result_empty,
                                       Some (Wrapped ''removing finalizer'' (ApiError (Transient m))))
                                 \<and> webapps w' = webapps w)
                    else r = Returns (Result_empty, None)
                         \<and> webapps w' = webapps w \<and> pass_calls w w' = [GetWebApp req]))"
    using h
    by (cases "outcome_at w 0"; cases "outcome_at w 1")
       (simp_all add: Reconcile_def get_webapp_eq coming_outcome_at u RemoveFinalizer_def
          cleanupChildResources_def IgnoreNotFound_def)
qed

theorem C2_witness:
  "webapps (ex_cluster ex_deleting (Some ex_deployment) (Some ex_service) []) ex_key
     = Some ex_deleting
   \<and> wkey ex_deleting = ex_key \<and> \<not> IsZero (DeletionTimestamp ex_deleting)
   \<and> ContainsFinalizer ex_deleting webappFinalizer
   \<and> fst (Reconcile ex_key (ex_cluster ex_deleting (Some ex_deployment) (Some ex_service) []))
       = Returns (Result_empty, None)
   \<and> pass_calls (ex_cluster ex_deleting (Some ex_deployment) (Some ex_service) [])
        (snd (Reconcile ex_key (ex_cluster ex_deleting (Some ex_deployment) (Some ex_service) [])))
       = [GetWebApp ex_key, UpdateWebApp (ex_deleting\<lparr>Finalizers := []\<rparr>)]
   \<and> webapps (snd (Reconcile ex_key
        (ex_cluster ex_deleting (Some ex_deployment) (Some ex_service) []))) ex_key = None
   \<and> deployments (snd (Reconcile ex_key
        (ex_cluster ex_deleting (Some ex_deployment) (Some ex_service) []))) ex_key
       = Some ex_deployment
   \<and> webapps (ex_cluster ex_held (Some ex_deployment) (Some ex_service) []) ex_key
       = Some ex_held
   \<and> wkey ex_held = ex_key \<and> \<not> IsZero (DeletionTimestamp ex_held)
   \<and> ContainsFinalizer ex_held webappFinalizer
   \<and> webapps (snd (Reconcile ex_key
        (ex_cluster ex_held (Some ex_deployment) (Some ex_service) []))) ex_key
       = Some (ex_held\<lparr>Finalizers := [''example.com/backup'']\<rparr>)"
proof -
  let ?w = "ex_cluster ex_deleting (Some ex_deployment) (Some ex_service) []"
  let ?v = "ex_cluster ex_held (Some ex_deployment) (Some ex_service) []"
  have a: "webapps ?w ex_key = Some ex_deleting
     \<and> wkey ex_deleting = ex_key \<and> \<not> IsZero (DeletionTimestamp ex_deleting)"
    by (simp add: ex_defs wkey_def IsZero_def)
  have c: "ContainsFinalizer ex_deleting webappFinalizer"
    by (simp add: ex_defs ContainsFinalizer_def webappFinalizer_def)
  have o: "outcome_at ?w 0 = Succeed" "outcome_at ?w 1 = Succeed"
    by (simp_all add: outcome_at_def ex_cluster_def)
  have f: "filter (\<lambda>e. e \<noteq> webappFinalizer) (Finalizers ex_deleting) = []"
    by (simp add: ex_defs webappFinalizer_def)
  from C2_deletion_gated_by_finalizer [of ?w ex_key ex_deleting, THEN mp, OF a] c o f
  have p: "fst (Reconcile ex_key ?w) = Returns (Result_empty, None)
   \<and> pass_calls ?w (snd (Reconcile ex_key ?w))
       = [GetWebApp ex_key, UpdateWebApp (ex_deleting\<lparr>Finalizers := []\<rparr>)]
   \<and> webapps (snd (Reconcile ex_key ?w)) ex_key = None
   \<and> deployments (snd (Reconcile ex_key ?w)) ex_key = Some ex_deployment"
    by (simp add: split_beta ex_cluster_def)
  have a': "webapps ?v ex_key = Some ex_held
     \<and> wkey ex_held = ex_key \<and> \<not> IsZero (DeletionTimestamp ex_held)"
    by (simp add: ex_defs wkey_def IsZero_def)
  have c': "ContainsFinalizer ex_held webappFinalizer"
    by (simp add: ex_defs ContainsFinalizer_def webappFinalizer_def)
  have o': "outcome_at ?v 0 = Succeed" "outcome_at ?v 1 = Succeed"
    by (simp_all add: outcome_at_def ex_cluster_def)
  have f': "filter (\<lambda>e. e \<noteq> webappFinalizer) (Finalizers ex_held) = [''example.com/backup'']"
    by (simp add: ex_defs webappFinalizer_def)
  from C2_deletion_gated_by_finalizer [of ?v ex_key ex_held, THEN mp, OF a'] c' o' f'
  have q: "webapps (snd (Reconcile ex_key ?v)) ex_key
       = Some (ex_held\<lparr>Finalizers := [''example.com/backup'']\<rparr>)"
    by (simp add: split_beta ex_cluster_def)
  from a c p a' c' q show ?thesis
    by simp
qed

section \<open>Steps of a full pass\<close>

lemma wkey_status [simp]:
  "wkey (x\<lparr>Status_Conditions := cs\<rparr>) = wkey x"
  "wkey (x\<lparr>Status_AvailableReplicas := n\<rparr>) = wkey x"
  by (simp_all add: wkey_def)

lemma same_but_status_refl [simp]: "same_but_status x x"
  by (simp add: same_but_status_def)

lemma same_but_status_upd [simp]:
  "same_but_status old x \<Longrightarrow> same_but_status old (x\<lparr>Status_Conditions := cs\<rparr>)"
  "same_but_status old x \<Longrightarrow> same_but_status old (x\<lparr>Status_AvailableReplicas := n\<rparr>)"
  by (cases old, cases x, simp add: same_but_status_def)+

text \<open>A condition write within a pass, in closed form.\<close>

lemma setCondition_synced:
  assumes "webapps w (wkey x) = Some old" "same_but_status old x"
  shows "setCondition x ty s r m w =
     (let x1 = x\<lparr>Status_Conditions :=
                  SetStatusCondition (clock w) (Status_Conditions x)
                    \<lparr>cond_Type = ty, cond_Status = s, cond_Reason = r, cond_Message = m,
                     cond_ObservedGeneration = Generation x, cond_LastTransitionTime = 0\<rparr>\<rparr>
      in case coming w of
           Succeed \<Rightarrow>
             (None, x1,
              (issued (UpdateWebAppStatus x1) w)\<lparr>webapps := (webapps w)(wkey x \<mapsto> x1)\<rparr>)
         | Fail msg \<Rightarrow>
             (Some (Wrapped (''updating status condition '' @ ty) (ApiError (Transient msg))),
              x1, issued (UpdateWebAppStatus x1) w))"
  using assms
  by (simp add: setCondition_def Let_def update_webapp_status_synced [where old = old]
      split: outcome.splits)

text \<open>What a child sync leaves alone, and which calls it issues.\<close>

lemma reconcileDeployment_frame:
  "reconcileDeployment x w = (r, w') \<Longrightarrow>
     webapps w' = webapps w \<and> services w' = services w \<and> clock w' = clock w
     \<and> scheme_registered w' = scheme_registered w
     \<and> (\<exists>cs. trace w' = trace w @ cs \<and> \<not> list_ex is_status_write cs)"
  by (auto simp: reconcileDeployment_def SetControllerReference_def get_deployment_def
        create_deployment_def update_deployment_def mergeDeployment_def issue_eq Let_def
      split: if_splits outcome.splits option.splits list.splits)

lemma reconcileService_frame:
  "reconcileService x w = (r, w') \<Longrightarrow>
     webapps w' = webapps w \<and> deployments w' = deployments w \<and> clock w' = clock w
     \<and> scheme_registered w' = scheme_registered w
     \<and> (\<exists>cs. trace w' = trace w @ cs \<and> \<not> list_ex is_status_write cs)"
  by (auto simp: reconcileService_def SetControllerReference_def get_service_def
        create_service_def update_service_def mergeService_def issue_eq Let_def
      split: if_splits outcome.splits option.splits)

lemma get_webapp_Inr:
  "get_webapp req w = (Inr x, w0) \<Longrightarrow> webapps w req = Some x \<and> w0 = issued (GetWebApp req) w"
  by (auto simp: get_webapp_eq split: outcome.splits option.splits)

lemma kinds_differ [simp]:
  "TypeAvailable \<noteq> TypeProgressing" "TypeAvailable \<noteq> TypeDegraded"
  "TypeProgressing \<noteq> TypeDegraded" "TypeProgressing \<noteq> TypeAvailable"
  "TypeDegraded \<noteq> TypeAvailable" "TypeDegraded \<noteq> TypeProgressing"
  by (simp_all add: TypeAvailable_def TypeProgressing_def TypeDegraded_def)

text \<open>
  C4. Take a pass that fetched a live WebApp carrying the finalizer and whose Progressing
  mark went through, and let the Deployment sync, or after it the Service sync, return
  an error \<open>e\<close>. Then the pass returns the empty result with \<open>e\<close> wrapped as its error; the
  only call after the failed sync is one status write, which carries Degraded = True with
  reason DeploymentFailed or ServiceFailed and the text of \<open>e\<close> as message; that write
  lands in the store when the store accepts it; the available-replica count and the
  Available condition of the stored WebApp are those it had before the pass; and the
  children are as the failed sync left them.
\<close>

theorem C4_sync_failure_reported:
  assumes fetch: "get_webapp req w = (Inr x, w0)" and key: "wkey x = req"
    and live: "IsZero (DeletionTimestamp x)" and fin: "ContainsFinalizer x webappFinalizer"
    and mark: "setCondition x TypeProgressing ConditionTrue
                 ''Reconciling'' ''reconciliation in progress'' w0 = (None, x1, w1)"
    and fails:
      "(reconcileDeployment x1 w1 = (Returns (Some e), w2)
          \<and> rs = ''DeploymentFailed'' \<and> pre = ''reconciling deployment'')
       \<or> (\<exists>wd. reconcileDeployment x1 w1 = (Returns None, wd)
             \<and> reconcileService x1 wd = (Returns (Some e), w2)
             \<and> rs = ''ServiceFailed'' \<and> pre = ''reconciling service'')"
  shows "\<exists>xd w'.
       Reconcile req w = (Returns (Result_empty, Some (Wrapped pre e)), w')
     \<and> pass_calls w2 w' = [UpdateWebAppStatus xd]
     \<and> map_option (\<lambda>c. (cond_Status c, cond_Reason c, cond_Message c))
          (condition_of xd TypeDegraded) = Some (ConditionTrue, rs, Error e)
     \<and> Status_AvailableReplicas xd = Status_AvailableReplicas x
     \<and> condition_of xd TypeAvailable = condition_of x TypeAvailable
     \<and> webapps w' req = Some (if outcome_at w2 0 = Succeed then xd else x1)
     \<and> Status_AvailableReplicas x1 = Status_AvailableReplicas x
     \<and> condition_of x1 TypeAvailable = condition_of x TypeAvailable
     \<and> deployments w' = deployments w2 \<and> services w' = services w2"
proof -
  from fetch have st: "webapps w0 (wkey x) = Some x"
    using key by (auto dest: get_webapp_Inr)
  from mark have x1: "x1 = x\<lparr>Status_Conditions :=
        SetStatusCondition (clock w0) (Status_Conditions x)
          \<lparr>cond_Type = TypeProgressing, cond_Status = ConditionTrue,
           cond_Reason = ''Reconciling'', cond_Message = ''reconciliation in progress'',
           cond_ObservedGeneration = Generation x, cond_LastTransitionTime = 0\<rparr>\<rparr>"
    and w1: "webapps w1 = (webapps w0)(wkey x \<mapsto> x1)"
    by (auto simp: setCondition_synced [OF st same_but_status_refl] Let_def
        split: outcome.splits)
  have k1: "wkey x1 = req"
    using key by (simp add: x1)
  have s1: "webapps w1 (wkey x1) = Some x1"
    using k1 key by (simp add: w1)
  have s2: "webapps w2 (wkey x1) = Some x1"
    using fails s1 by (auto dest!: reconcileDeployment_frame reconcileService_frame)
  let ?xd = "x1\<lparr>Status_Conditions :=
        SetStatusCondition (clock w2) (Status_Conditions x1)
          \<lparr>cond_Type = TypeDegraded, cond_Status = ConditionTrue,
           cond_Reason = rs, cond_Message = Error e,
           cond_ObservedGeneration = Generation x1, cond_LastTransitionTime = 0\<rparr>\<rparr>"
  have d: "setCondition x1 TypeDegraded ConditionTrue rs (Error e) w2 =
      (case coming w2 of
         Succeed \<Rightarrow>
           (None, ?xd, (issued (UpdateWebAppStatus ?xd) w2)\<lparr>webapps := (webapps w2)(wkey x1 \<mapsto> ?xd)\<rparr>)
       | Fail msg \<Rightarrow>
           (Some (Wrapped (''updating status condition '' @ TypeDegraded) (ApiError (Transient msg))),
            ?xd, issued (UpdateWebAppStatus ?xd) w2))"
    by (simp add: setCondition_synced [OF s2 same_but_status_refl] Let_def)
  have r: "Reconcile req w = Reconcile_children x w0"
    using fetch live fin by (simp add: Reconcile_def)
  have c: "Reconcile_children x w0 =
      (Returns (Result_empty, Some (Wrapped pre e)),
       snd (snd (setCondition x1 TypeDegraded ConditionTrue rs (Error e) w2)))"
    using fails mark by (auto simp: Reconcile_children_def split: prod.splits)
  have props: "map_option (\<lambda>c. (cond_Status c, cond_Reason c, cond_Message c))
          (condition_of ?xd TypeDegraded) = Some (ConditionTrue, rs, Error e)
     \<and> Status_AvailableReplicas ?xd = Status_AvailableReplicas x
     \<and> condition_of ?xd TypeAvailable = condition_of x TypeAvailable
     \<and> Status_AvailableReplicas x1 = Status_AvailableReplicas x
     \<and> condition_of x1 TypeAvailable = condition_of x TypeAvailable"
    by (simp add: x1 condition_of_def Find_Set merge_condition_fields split: option.splits)
  show ?thesis
    apply (rule exI [where x = ?xd])
    apply (rule exI [where x = "snd (snd (setCondition x1 TypeDegraded ConditionTrue rs (Error e) w2))"])
    using props k1 s2
    by (cases "coming w2") (simp_all add: r c d coming_outcome_at)
qed

theorem C4_witness:
  "fst (Reconcile ex_key (ex_cluster ex_ready None None [Succeed, Succeed, Fail ''etcd timeout'']))
     = Returns (Result_empty,
         Some (Wrapped ''reconciling deployment''
                 (Wrapped ''getting deployment'' (ApiError (Transient ''etcd timeout'')))))
   \<and> (\<exists>xd. webapps (snd (Reconcile ex_key
                (ex_cluster ex_ready None None [Succeed, Succeed, Fail ''etcd timeout'']))) ex_key
              = Some xd
          \<and> map_option (\<lambda>c. (cond_Status c, cond_Reason c, cond_Message c))
               (condition_of xd TypeDegraded)
              = Some (ConditionTrue, ''DeploymentFailed'', ''getting deployment: etcd timeout'')
          \<and> condition_of xd TypeAvailable = None)"
proof -
  let ?w = "ex_cluster ex_ready None None [Succeed, Succeed, Fail ''etcd timeout'']"
  let ?wa = "snd (get_webapp ex_key ?w)"
  let ?m = "setCondition ex_ready TypeProgressing ConditionTrue
              ''Reconciling'' ''reconciliation in progress'' ?wa"
  let ?xa = "fst (snd ?m)"
  let ?wb = "snd (snd ?m)"
  let ?e = "Wrapped ''getting deployment'' (ApiError (Transient ''etcd timeout''))"
  let ?wc = "snd (reconcileDeployment ?xa ?wb)"
  have "fst (get_webapp ex_key ?w) = Inr ex_ready"
    by (simp add: api_defs ex_defs)
  then have fetch: "get_webapp ex_key ?w = (Inr ex_ready, ?wa)"
    by (simp add: prod_eq_iff)
  have key: "wkey ex_ready = ex_key"
    by (simp add: wkey_def ex_defs)
  have live: "IsZero (DeletionTimestamp ex_ready)"
    by (simp add: IsZero_def ex_defs)
  have fin: "ContainsFinalizer ex_ready webappFinalizer"
    by (simp add: ContainsFinalizer_def webappFinalizer_def ex_defs)
  have "fst ?m = None"
    by (simp add: api_defs setCondition_def ex_defs Let_def)
  then have mark: "?m = (None, ?xa, ?wb)"
    by (simp add: prod_eq_iff)
  have "fst (reconcileDeployment ?xa ?wb) = Returns (Some ?e)"
    by (simp add: api_defs ctl_defs ex_defs Let_def)
  then have dep: "reconcileDeployment ?xa ?wb = (Returns (Some ?e), ?wc)"
    by (simp add: prod_eq_iff)
  have fails: "(reconcileDeployment ?xa ?wb = (Returns (Some ?e), ?wc)
          \<and> ''DeploymentFailed'' = ''DeploymentFailed''
          \<and> ''reconciling deployment'' = ''reconciling deployment'')
       \<or> (\<exists>wd. reconcileDeployment ?xa ?wb = (Returns None, wd)
             \<and> reconcileService ?xa wd = (Returns (Some ?e), ?wc)
             \<and> ''DeploymentFailed'' = ''ServiceFailed''
             \<and> ''reconciling deployment'' = ''reconciling service'')"
    using dep by simp
  have o: "outcome_at ?wc 0 = Succeed"
    by (simp add: api_defs ctl_defs ex_defs outcome_at_def Let_def)
  have a: "condition_of ex_ready TypeAvailable = None"
    by (simp add: condition_of_def FindStatusCondition_def ex_defs)
  from C4_sync_failure_reported [OF fetch key live fin mark fails] o a
  show ?thesis
    by auto
qed

section \<open>A pass that finishes cleanly\<close>

lemma get_deployment_eq:
  "get_deployment k w =
     (case coming w of
        Fail m \<Rightarrow> (Inl (Transient m), issued (GetDeployment k) w)
      | Succeed \<Rightarrow>
          (case deployments w k of
             None \<Rightarrow> (Inl (not_found ''deployments.apps'' (snd k)), issued (GetDeployment k) w)
           | Some d \<Rightarrow> (Inr d, issued (GetDeployment k) w)))"
  by (simp add: get_deployment_def issue_eq split: outcome.splits)

lemma clean_result_simps [simp]:
  "clean_result \<noteq> Returns (Result_empty, e)"
  "clean_result \<noteq> Returns (Result_empty\<lparr>Requeue := True\<rparr>, e)"
  "clean_result \<noteq> Returns (r, Some e')"
  "clean_result \<noteq> Panics m"
  "Returns (Result_empty, e) \<noteq> clean_result"
  "Returns (Result_empty\<lparr>Requeue := True\<rparr>, e) \<noteq> clean_result"
  "Returns (r, Some e') \<noteq> clean_result"
  "Panics m \<noteq> clean_result"
  by (simp_all add: clean_result_def Result_empty_def requeueAfter_def)

text \<open>A pass that finished cleanly went through every step.\<close>

lemma Reconcile_clean_path:
  assumes "Reconcile req w = (clean_result, w')"
  shows "\<exists>x. webapps w req = Some x \<and> IsZero (DeletionTimestamp x)
           \<and> ContainsFinalizer x webappFinalizer
           \<and> Reconcile_children x (issued (GetWebApp req) w) = (clean_result, w')"
  using assms
  by (auto simp: Reconcile_def get_webapp_eq cleanupChildResources_def
      split: outcome.splits option.splits if_splits prod.splits)

lemma Reconcile_children_clean_path:
  assumes "Reconcile_children x w0 = (clean_result, w')"
  shows "\<exists>x1 w1 w2 w3.
       setCondition x TypeProgressing ConditionTrue
         ''Reconciling'' ''reconciliation in progress'' w0 = (None, x1, w1)
     \<and> reconcileDeployment x1 w1 = (Returns None, w2)
     \<and> reconcileService x1 w2 = (Returns None, w3)
     \<and> Reconcile_status x1 w3 = (clean_result, w')"
  using assms
  by (auto simp: Reconcile_children_def
      split: option.splits prod.splits go.splits)

lemma setCondition_synced_None:
  assumes "webapps w (wkey x) = Some old" "same_but_status old x"
    and "setCondition x ty s r m w = (None, x', w')"
  shows "x' = x\<lparr>Status_Conditions :=
                  SetStatusCondition (clock w) (Status_Conditions x)
                    \<lparr>cond_Type = ty, cond_Status = s, cond_Reason = r, cond_Message = m,
                     cond_ObservedGeneration = Generation x, cond_LastTransitionTime = 0\<rparr>\<rparr>"
    and "w' = (issued (UpdateWebAppStatus x') w)\<lparr>webapps := (webapps w)(wkey x \<mapsto> x')\<rparr>"
    and "coming w = Succeed"
  using assms(3) unfolding setCondition_synced [OF assms(1,2)]
  by (auto simp: Let_def split: outcome.splits)

lemma Reconcile_status_clean_path:
  assumes "Reconcile_status x1 w3 = (clean_result, w')"
  shows "\<exists>dep w4 x2 w5 x3 w6 x4.
       get_deployment (Namespace x1, Name x1) w3 = (Inr dep, w4)
     \<and> setCondition (x1\<lparr>Status_AvailableReplicas := d_AvailableReplicas dep\<rparr>) TypeAvailable
          (if 0 < d_AvailableReplicas dep then ConditionTrue else ConditionFalse)
          (if 0 < d_AvailableReplicas dep then ''DeploymentAvailable'' else ''DeploymentUnavailable'')
          (if 0 < d_AvailableReplicas dep
           then Sprintf_d (d_AvailableReplicas dep) @ '' replica(s) available''
           else ''no replicas are available yet'') w4 = (None, x2, w5)
     \<and> setCondition x2 TypeProgressing ConditionFalse
          ''ReconcileComplete'' ''reconciliation complete'' w5 = (None, x3, w6)
     \<and> setCondition x3 TypeDegraded ConditionFalse
          ''ReconcileComplete'' ''no errors'' w6 = (None, x4, w')"
  using assms
  by (auto simp: Reconcile_status_def Let_def
      split: option.splits prod.splits sum.splits)

lemma get_deployment_Inr:
  "get_deployment k w = (Inr d, w') \<Longrightarrow>
     deployments w k = Some d \<and> w' = issued (GetDeployment k) w"
  by (auto simp: get_deployment_eq split: outcome.splits option.splits)

text \<open>
  The stored WebApp after a clean pass: the available-replica count of the Deployment
  and four condition writes on top of the conditions it had.
\<close>

lemma clean_pass_store:
  assumes has: "webapps w req = Some x" and key: "wkey x = req"
    and run: "Reconcile req w = (clean_result, w')"
  shows "\<exists>dep. deployments w' req = Some dep
     \<and> webapps w' req = Some (x\<lparr>Status_AvailableReplicas := d_AvailableReplicas dep,
          Status_Conditions :=
            SetStatusCondition (clock w)
              (SetStatusCondition (clock w)
                 (SetStatusCondition (clock w)
                    (SetStatusCondition (clock w) (Status_Conditions x)
                       \<lparr>cond_Type = TypeProgressing, cond_Status = ConditionTrue,
                        cond_Reason = ''Reconciling'',
                        cond_Message = ''reconciliation in progress'',
                        cond_ObservedGeneration = Generation x, cond_LastTransitionTime = 0\<rparr>)
                    \<lparr>cond_Type = TypeAvailable,
                     cond_Status = (if 0 < d_AvailableReplicas dep
                                    then ConditionTrue else ConditionFalse),
                     cond_Reason = (if 0 < d_AvailableReplicas dep
                                    then ''DeploymentAvailable'' else ''DeploymentUnavailable''),
                     cond_Message = (if 0 < d_AvailableReplicas dep
                                     then Sprintf_d (d_AvailableReplicas dep) @ '' replica(s) available''
                                     else ''no replicas are available yet''),
                     cond_ObservedGeneration = Generation x, cond_LastTransitionTime = 0\<rparr>)
                 \<lparr>cond_Type = TypeProgressing, cond_Status = ConditionFalse,
                  cond_Reason = ''ReconcileComplete'',
                  cond_Message = ''reconciliation complete'',
                  cond_ObservedGeneration = Generation x, cond_LastTransitionTime = 0\<rparr>)
              \<lparr>cond_Type = TypeDegraded, cond_Status = ConditionFalse,
               cond_Reason = ''ReconcileComplete'', cond_Message = ''no errors'',
               cond_ObservedGeneration = Generation x, cond_LastTransitionTime = 0\<rparr>\<rparr>)"
proof -
  let ?wa = "issued (GetWebApp req) w"
  from Reconcile_clean_path [OF run] has
  have ch: "Reconcile_children x ?wa = (clean_result, w')"
    by auto
  from Reconcile_children_clean_path [OF ch]
  obtain xa wb wc wd where
    mark: "setCondition x TypeProgressing ConditionTrue
             ''Reconciling'' ''reconciliation in progress'' ?wa = (None, xa, wb)"
    and dp: "reconcileDeployment xa wb = (Returns None, wc)"
    and sv: "reconcileService xa wc = (Returns None, wd)"
    and st: "Reconcile_status xa wd = (clean_result, w')"
    by blast
  have sa: "webapps ?wa (wkey x) = Some x"
    using has key by simp
  note m = setCondition_synced_None [OF sa same_but_status_refl mark]
  have ka: "wkey xa = req" "(Namespace xa, Name xa) = req"
    using key by (simp_all add: m(1) wkey_def)
  have sd: "webapps wd (wkey xa) = Some xa" and cd: "clock wd = clock w"
    using reconcileDeployment_frame [OF dp] reconcileService_frame [OF sv] ka key
    by (simp_all add: m(2))
  from Reconcile_status_clean_path [OF st]
  obtain dep we xb wf xc wg xd where
    g: "get_deployment (Namespace xa, Name xa) wd = (Inr dep, we)"
    and a: "setCondition (xa\<lparr>Status_AvailableReplicas := d_AvailableReplicas dep\<rparr>) TypeAvailable
          (if 0 < d_AvailableReplicas dep then ConditionTrue else ConditionFalse)
          (if 0 < d_AvailableReplicas dep then ''DeploymentAvailable'' else ''DeploymentUnavailable'')
          (if 0 < d_AvailableReplicas dep
           then Sprintf_d (d_AvailableReplicas dep) @ '' replica(s) available''
           else ''no replicas are available yet'') we = (None, xb, wf)"
    and p: "setCondition xb TypeProgressing ConditionFalse
          ''ReconcileComplete'' ''reconciliation complete'' wf = (None, xc, wg)"
    and d: "setCondition xc TypeDegraded ConditionFalse
          ''ReconcileComplete'' ''no errors'' wg = (None, xd, w')"
    by blast
  from get_deployment_Inr [OF g]
  have dd: "deployments wd req = Some dep" and we: "we = issued (GetDeployment req) wd"
    using ka by simp_all
  have se: "webapps we (wkey (xa\<lparr>Status_AvailableReplicas := d_AvailableReplicas dep\<rparr>)) = Some xa"
    using sd by (simp add: we)
  have sb: "same_but_status xa (xa\<lparr>Status_AvailableReplicas := d_AvailableReplicas dep\<rparr>)"
    by simp
  note ma = setCondition_synced_None [OF se sb a]
  have sf: "webapps wf (wkey xb) = Some xb"
    by (simp add: ma(2)) (simp add: ma(1))
  note mp = setCondition_synced_None [OF sf same_but_status_refl p]
  have sg: "webapps wg (wkey xc) = Some xc"
    by (simp add: mp(2)) (simp add: mp(1))
  note md = setCondition_synced_None [OF sg same_but_status_refl d]
  have kd: "wkey xc = req"
    using ka by (simp add: mp(1) ma(1))
  have stored: "webapps w' req = Some xd"
    using kd by (simp add: md(2))
  have deps: "deployments w' req = Some dep"
    using dd by (simp add: md(2) mp(2) ma(2) we)
  have clocks: "clock wg = clock w" "clock wf = clock w" "clock we = clock w"
    using cd by (simp_all add: mp(2) ma(2) we)
  have xd: "xd = x\<lparr>Status_AvailableReplicas := d_AvailableReplicas dep,
          Status_Conditions :=
            SetStatusCondition (clock w)
              (SetStatusCondition (clock w)
                 (SetStatusCondition (clock w)
                    (SetStatusCondition (clock w) (Status_Conditions x)
                       \<lparr>cond_Type = TypeProgressing, cond_Status = ConditionTrue,
                        cond_Reason = ''Reconciling'',
                        cond_Message = ''reconciliation in progress'',
                        cond_ObservedGeneration = Generation x, cond_LastTransitionTime = 0\<rparr>)
                    \<lparr>cond_Type = TypeAvailable,
                     cond_Status = (if 0 < d_AvailableReplicas dep
                                    then ConditionTrue else ConditionFalse),
                     cond_Reason = (if 0 < d_AvailableReplicas dep
                                    then ''DeploymentAvailable'' else ''DeploymentUnavailable''),
                     cond_Message = (if 0 < d_AvailableReplicas dep
                                     then Sprintf_d (d_AvailableReplicas dep) @ '' replica(s) available''
                                     else ''no replicas are available yet''),
                     cond_ObservedGeneration = Generation x, cond_LastTransitionTime = 0\<rparr>)
                 \<lparr>cond_Type = TypeProgressing, cond_Status = ConditionFalse,
                  cond_Reason = ''ReconcileComplete'',
                  cond_Message = ''reconciliation complete'',
                  cond_ObservedGeneration = Generation x, cond_LastTransitionTime = 0\<rparr>)
              \<lparr>cond_Type = TypeDegraded, cond_Status = ConditionFalse,
               cond_Reason = ''ReconcileComplete'', cond_Message = ''no errors'',
               cond_ObservedGeneration = Generation x, cond_LastTransitionTime = 0\<rparr>\<rparr>"
    by (simp add: md(1) mp(1) ma(1) m(1) clocks)
  from stored deps xd show ?thesis
    by blast
qed

lemma Reconcile_status_first_write:
  assumes g: "get_deployment (Namespace z, Name z) v = (Inr dp, va)"
  shows "\<exists>rest. pass_calls va (snd (Reconcile_status z v)) =
     UpdateWebAppStatus
       (z\<lparr>Status_AvailableReplicas := d_AvailableReplicas dp,
          Status_Conditions :=
            SetStatusCondition (clock va) (Status_Conditions z)
              \<lparr>cond_Type = TypeAvailable,
               cond_Status = (if 0 < d_AvailableReplicas dp
                              then ConditionTrue else ConditionFalse),
               cond_Reason = (if 0 < d_AvailableReplicas dp
                              then ''DeploymentAvailable'' else ''DeploymentUnavailable''),
               cond_Message = (if 0 < d_AvailableReplicas dp
                               then Sprintf_d (d_AvailableReplicas dp) @ '' replica(s) available''
                               else ''no replicas are available yet''),
               cond_ObservedGeneration = Generation z, cond_LastTransitionTime = 0\<rparr>\<rparr>) # rest"
proof -
  let ?za = "z\<lparr>Status_AvailableReplicas := d_AvailableReplicas dp\<rparr>"
  let ?st = "if 0 < d_AvailableReplicas dp then ConditionTrue else ConditionFalse"
  let ?rs = "if 0 < d_AvailableReplicas dp
             then ''DeploymentAvailable'' else ''DeploymentUnavailable''"
  let ?ms = "if 0 < d_AvailableReplicas dp
             then Sprintf_d (d_AvailableReplicas dp) @ '' replica(s) available''
             else ''no replicas are available yet''"
  obtain e1 xb vb where a: "setCondition ?za TypeAvailable ?st ?rs ?ms va = (e1, xb, vb)"
    by (metis prod_cases3)
  obtain e2 xc vc where p: "setCondition xb TypeProgressing ConditionFalse
      ''ReconcileComplete'' ''reconciliation complete'' vb = (e2, xc, vc)"
    by (metis prod_cases3)
  obtain e3 xd vd where d: "setCondition xc TypeDegraded ConditionFalse
      ''ReconcileComplete'' ''no errors'' vc = (e3, xd, vd)"
    by (metis prod_cases3)
  note ta = setCondition_trace [OF a] and tp = setCondition_trace [OF p]
    and td = setCondition_trace [OF d]
  have "snd (Reconcile_status z v) = vb \<or> snd (Reconcile_status z v) = vc
      \<or> snd (Reconcile_status z v) = vd"
    using g a p d by (auto simp: Reconcile_status_def Let_def split: option.splits)
  then show ?thesis
    using ta tp td by (auto simp: pass_calls_def)
qed

text \<open>
  C5, as the code has it. After a pass that finishes cleanly the stored WebApp reports
  the available-replica count of the Deployment; its Available condition is True exactly
  when that count is positive, then with reason DeploymentAvailable and the message
  "n replica(s) available"; otherwise it is False with reason DeploymentUnavailable and
  the fixed message "no replicas are available yet"; and its Progressing condition is
  False with reason ReconcileComplete. In any pass that reaches status projection, the
  fetch of the Deployment for status having gone through, the next call is the status
  write that carries that count and that Available condition.
\<close>

theorem C5_available_decision_table:
  "(webapps w req = Some x \<and> wkey x = req \<and> Reconcile req w = (clean_result, w') \<longrightarrow>
     (\<exists>y dep a p.
         webapps w' req = Some y \<and> deployments w' req = Some dep
       \<and> Status_AvailableReplicas y = d_AvailableReplicas dep
       \<and> condition_of y TypeAvailable = Some a
       \<and> (cond_Status a = ConditionTrue \<longleftrightarrow> 0 < d_AvailableReplicas dep)
       \<and> (0 < d_AvailableReplicas dep \<longrightarrow>
             cond_Reason a = ''DeploymentAvailable''
             \<and> cond_Message a = Sprintf_d (d_AvailableReplicas dep) @ '' replica(s) available'')
       \<and> (\<not> 0 < d_AvailableReplicas dep \<longrightarrow>
             cond_Status a = ConditionFalse
             \<and> cond_Reason a = ''DeploymentUnavailable''
             \<and> cond_Message a = ''no replicas are available yet'')
       \<and> condition_of y TypeProgressing = Some p
       \<and> cond_Status p = ConditionFalse
       \<and> cond_Reason p = ''ReconcileComplete''
       \<and> cond_Message p = ''reconciliation complete''))
   \<and> (get_deployment (Namespace z, Name z) v = (Inr dp, va) \<longrightarrow>
     (\<exists>za b rest.
         pass_calls va (snd (Reconcile_status z v)) = UpdateWebAppStatus za # rest
       \<and> Status_AvailableReplicas za = d_AvailableReplicas dp
       \<and> condition_of za TypeAvailable = Some b
       \<and> (cond_Status b = ConditionTrue \<longleftrightarrow> 0 < d_AvailableReplicas dp)
       \<and> (0 < d_AvailableReplicas dp \<longrightarrow>
             cond_Reason b = ''DeploymentAvailable''
             \<and> cond_Message b = Sprintf_d (d_AvailableReplicas dp) @ '' replica(s) available'')
       \<and> (\<not> 0 < d_AvailableReplicas dp \<longrightarrow>
             cond_Status b = ConditionFalse
             \<and> cond_Reason b = ''DeploymentUnavailable''
             \<and> cond_Message b = ''no replicas are available yet'')))"
proof (intro conjI impI)
  assume h: "webapps w req = Some x \<and> wkey x = req \<and> Reconcile req w = (clean_result, w')"
  then have has: "webapps w req = Some x" and key: "wkey x = req"
    and run: "Reconcile req w = (clean_result, w')"
    by simp_all

  from clean_pass_store [OF has key run]
  obtain dep y where d: "deployments w' req = Some dep" and y: "webapps w' req = Some y"
    and yd: "y = x\<lparr>Status_AvailableReplicas := d_AvailableReplicas dep,
          Status_Conditions :=
            SetStatusCondition (clock w)
              (SetStatusCondition (clock w)
                 (SetStatusCondition (clock w)
                    (SetStatusCondition (clock w) (Status_Conditions x)
                       \<lparr>cond_Type = TypeProgressing, cond_Status = ConditionTrue,
                        cond_Reason = ''Reconciling'',
                        cond_Message = ''reconciliation in progress'',
                        cond_ObservedGeneration = Generation x, cond_LastTransitionTime = 0\<rparr>)
                    \<lparr>cond_Type = TypeAvailable,
                     cond_Status = (if 0 < d_AvailableReplicas dep
                                    then ConditionTrue else ConditionFalse),
                     cond_Reason = (if 0 < d_AvailableReplicas dep
                                    then ''DeploymentAvailable'' else ''DeploymentUnavailable''),
                     cond_Message = (if 0 < d_AvailableReplicas dep
                                     then Sprintf_d (d_AvailableReplicas dep) @ '' replica(s) available''
                                     else ''no replicas are available yet''),
                     cond_ObservedGeneration = Generation x, cond_LastTransitionTime = 0\<rparr>)
                 \<lparr>cond_Type = TypeProgressing, cond_Status = ConditionFalse,
                  cond_Reason = ''ReconcileComplete'',
                  cond_Message = ''reconciliation complete'',
                  cond_ObservedGeneration = Generation x, cond_LastTransitionTime = 0\<rparr>)
              \<lparr>cond_Type = TypeDegraded, cond_Status = ConditionFalse,
               cond_Reason = ''ReconcileComplete'', cond_Message = ''no errors'',
               cond_ObservedGeneration = Generation x, cond_LastTransitionTime = 0\<rparr>\<rparr>"
    by blast
  have n: "Status_AvailableReplicas y = d_AvailableReplicas dep"
    by (simp add: yd)
  obtain a where a: "condition_of y TypeAvailable = Some a"
    and a1: "cond_Status a = (if 0 < d_AvailableReplicas dep then ConditionTrue else ConditionFalse)"
    and a2: "cond_Reason a = (if 0 < d_AvailableReplicas dep
                              then ''DeploymentAvailable'' else ''DeploymentUnavailable'')"
    and a3: "cond_Message a = (if 0 < d_AvailableReplicas dep
                               then Sprintf_d (d_AvailableReplicas dep) @ '' replica(s) available''
                               else ''no replicas are available yet'')"
    by (simp add: yd condition_of_def Find_Set merge_condition_fields split: option.splits)
  obtain p where p: "condition_of y TypeProgressing = Some p"
    and p1: "cond_Status p = ConditionFalse" and p2: "cond_Reason p = ''ReconcileComplete''"
    and p3: "cond_Message p = ''reconciliation complete''"
    by (simp add: yd condition_of_def Find_Set merge_condition_fields split: option.splits)
  from d y n a a1 a2 a3 p p1 p2 p3 show "\<exists>y dep a p.
         webapps w' req = Some y \<and> deployments w' req = Some dep
       \<and> Status_AvailableReplicas y = d_AvailableReplicas dep
       \<and> condition_of y TypeAvailable = Some a
       \<and> (cond_Status a = ConditionTrue \<longleftrightarrow> 0 < d_AvailableReplicas dep)
       \<and> (0 < d_AvailableReplicas dep \<longrightarrow>
             cond_Reason a = ''DeploymentAvailable''
             \<and> cond_Message a = Sprintf_d (d_AvailableReplicas dep) @ '' replica(s) available'')
       \<and> (\<not> 0 < d_AvailableReplicas dep \<longrightarrow>
             cond_Status a = ConditionFalse
             \<and> cond_Reason a = ''DeploymentUnavailable''
             \<and> cond_Message a = ''no replicas are available yet'')
       \<and> condition_of y TypeProgressing = Some p
       \<and> cond_Status p = ConditionFalse
       \<and> cond_Reason p = ''ReconcileComplete''
       \<and> cond_Message p = ''reconciliation complete''"
    by auto
next
  assume g: "get_deployment (Namespace z, Name z) v = (Inr dp, va)"
  from Reconcile_status_first_write [OF g]
  obtain rest za where c: "pass_calls va (snd (Reconcile_status z v)) = UpdateWebAppStatus za # rest"
    and za: "za = z\<lparr>Status_AvailableReplicas := d_AvailableReplicas dp,
          Status_Conditions :=
            SetStatusCondition (clock va) (Status_Conditions z)
              \<lparr>cond_Type = TypeAvailable,
               cond_Status = (if 0 < d_AvailableReplicas dp
                              then ConditionTrue else ConditionFalse),
               cond_Reason = (if 0 < d_AvailableReplicas dp
                              then ''DeploymentAvailable'' else ''DeploymentUnavailable''),
               cond_Message = (if 0 < d_AvailableReplicas dp
                               then Sprintf_d (d_AvailableReplicas dp) @ '' replica(s) available''
                               else ''no replicas are available yet''),
               cond_ObservedGeneration = Generation z, cond_LastTransitionTime = 0\<rparr>\<rparr>"
    by blast
  obtain b where b: "condition_of za TypeAvailable = Some b"
    and b1: "cond_Status b = (if 0 < d_AvailableReplicas dp then ConditionTrue else ConditionFalse)"
    and b2: "cond_Reason b = (if 0 < d_AvailableReplicas dp
                              then ''DeploymentAvailable'' else ''DeploymentUnavailable'')"
    and b3: "cond_Message b = (if 0 < d_AvailableReplicas dp
                               then Sprintf_d (d_AvailableReplicas dp) @ '' replica(s) available''
                               else ''no replicas are available yet'')"
    by (simp add: za condition_of_def Find_Set merge_condition_fields split: option.splits)
  have n: "Status_AvailableReplicas za = d_AvailableReplicas dp"
    by (simp add: za)
  from c n b b1 b2 b3
  show "\<exists>za b rest.
         pass_calls va (snd (Reconcile_status z v)) = UpdateWebAppStatus za # rest
       \<and> Status_AvailableReplicas za = d_AvailableReplicas dp
       \<and> condition_of za TypeAvailable = Some b
       \<and> (cond_Status b = ConditionTrue \<longleftrightarrow> 0 < d_AvailableReplicas dp)
       \<and> (0 < d_AvailableReplicas dp \<longrightarrow>
             cond_Reason b = ''DeploymentAvailable''
             \<and> cond_Message b = Sprintf_d (d_AvailableReplicas dp) @ '' replica(s) available'')
       \<and> (\<not> 0 < d_AvailableReplicas dp \<longrightarrow>
             cond_Status b = ConditionFalse
             \<and> cond_Reason b = ''DeploymentUnavailable''
             \<and> cond_Message b = ''no replicas are available yet'')"
    by auto
qed

theorem C5_witness:
  "fst (Reconcile ex_key (ex_cluster ex_ready (Some ex_deployment) (Some ex_service) []))
     = clean_result
   \<and> map_option cond_Status
        (stored_condition (snd (Reconcile ex_key
           (ex_cluster ex_ready (Some ex_deployment) (Some ex_service) []))) ex_key TypeAvailable)
       = Some ConditionTrue
   \<and> map_option cond_Message
        (stored_condition (snd (Reconcile ex_key
           (ex_cluster ex_ready (Some ex_deployment) (Some ex_service) []))) ex_key TypeAvailable)
       = Some ''2 replica(s) available''
   \<and> map_option cond_Reason
        (stored_condition (snd (Reconcile ex_key
           (ex_cluster ex_ready (Some ex_deployment) (Some ex_service) []))) ex_key TypeProgressing)
       = Some ''ReconcileComplete''
   \<and> fst (get_deployment (Namespace ex_ready, Name ex_ready)
        (ex_cluster ex_ready (Some ex_deployment) None [Succeed, Fail ''conflict'']))
       = Inr ex_deployment
   \<and> (\<exists>za b rest.
         pass_calls
           (snd (get_deployment (Namespace ex_ready, Name ex_ready)
              (ex_cluster ex_ready (Some ex_deployment) None [Succeed, Fail ''conflict''])))
           (snd (Reconcile_status ex_ready
              (ex_cluster ex_ready (Some ex_deployment) None [Succeed, Fail ''conflict''])))
           = UpdateWebAppStatus za # rest
       \<and> Status_AvailableReplicas za = 2
       \<and> condition_of za TypeAvailable = Some b
       \<and> cond_Status b = ConditionTrue
       \<and> cond_Message b = ''2 replica(s) available'')"
proof -
  let ?w = "ex_cluster ex_ready (Some ex_deployment) (Some ex_service) []"
  let ?v = "snd (Reconcile ex_key ?w)"
  let ?u = "ex_cluster ex_ready (Some ex_deployment) None [Succeed, Fail ''conflict'']"
  have has: "webapps ?w ex_key = Some ex_ready"
    by (simp add: ex_cluster_def)
  have key: "wkey ex_ready = ex_key"
    by (simp add: wkey_def ex_defs)
  have "case Reconcile ex_key ?w of
          (r, v) \<Rightarrow> r = clean_result
            \<and> map_option d_AvailableReplicas (deployments v ex_key) = Some 2"
    by (simp add: api_defs ctl_defs ex_defs clean_result_def Let_def)
  then have r: "fst (Reconcile ex_key ?w) = clean_result"
    and n: "map_option d_AvailableReplicas (deployments ?v ex_key) = Some 2"
    by (simp_all add: split_beta)
  from r have run: "Reconcile ex_key ?w = (clean_result, ?v)"
    by (simp add: prod_eq_iff)
  have m: "Sprintf_d 2 = ''2''"
    by (simp add: Sprintf_d_def decimal.simps digit_char_def)
  have g: "fst (get_deployment (Namespace ex_ready, Name ex_ready) ?u) = Inr ex_deployment"
    by (simp add: get_deployment_eq coming_def ex_cluster_def ex_ready_def ex_fresh_def ex_key_def)
  then have get: "get_deployment (Namespace ex_ready, Name ex_ready) ?u
      = (Inr ex_deployment, snd (get_deployment (Namespace ex_ready, Name ex_ready) ?u))"
    by (simp add: prod_eq_iff)
  have d: "d_AvailableReplicas ex_deployment = 2"
    by (simp add: ex_deployment_def)
  note t = C5_available_decision_table
    [of ?w ex_key ex_ready ?v ex_ready ?u ex_deployment
        "snd (get_deployment (Namespace ex_ready, Name ex_ready) ?u)"]
  from t [THEN conjunct1, THEN mp, OF conjI [OF has conjI [OF key run]]] n m r
  have first: "map_option cond_Status (stored_condition ?v ex_key TypeAvailable)
       = Some ConditionTrue
     \<and> map_option cond_Message (stored_condition ?v ex_key TypeAvailable)
       = Some ''2 replica(s) available''
     \<and> map_option cond_Reason (stored_condition ?v ex_key TypeProgressing)
       = Some ''ReconcileComplete''"
    by (auto simp: stored_condition_def)
  from t [THEN conjunct2, THEN mp, OF get] d m
  have second: "\<exists>za b rest.
         pass_calls (snd (get_deployment (Namespace ex_ready, Name ex_ready) ?u))
           (snd (Reconcile_status ex_ready ?u)) = UpdateWebAppStatus za # rest
       \<and> Status_AvailableReplicas za = 2
       \<and> condition_of za TypeAvailable = Some b
       \<and> cond_Status b = ConditionTrue
       \<and> cond_Message b = ''2 replica(s) available''"
    by auto
  from r first g second show ?thesis
    by blast
qed

text \<open>
  C5 as the specification words it does not hold: with no replica available the reason
  written is DeploymentUnavailable, not Unavailable, and the message is fixed.
\<close>

theorem C5_counterexample:
  "fst (Reconcile ex_key (ex_cluster ex_ready None None [])) = clean_result
   \<and> map_option cond_Status
        (stored_condition (snd (Reconcile ex_key (ex_cluster ex_ready None None [])))
           ex_key TypeAvailable) = Some ConditionFalse
   \<and> map_option cond_Reason
        (stored_condition (snd (Reconcile ex_key (ex_cluster ex_ready None None [])))
           ex_key TypeAvailable) = Some ''DeploymentUnavailable''
   \<and> map_option cond_Reason
        (stored_condition (snd (Reconcile ex_key (ex_cluster ex_ready None None [])))
           ex_key TypeAvailable) \<noteq> Some ''Unavailable''
   \<and> map_option cond_Message
        (stored_condition (snd (Reconcile ex_key (ex_cluster ex_ready None None [])))
           ex_key TypeAvailable) = Some ''no replicas are available yet''"
proof -
  have "case Reconcile ex_key (ex_cluster ex_ready None None []) of
          (r, v) \<Rightarrow> r = clean_result
            \<and> stored_condition v ex_key TypeAvailable =
                Some \<lparr>cond_Type = ''Available'', cond_Status = ConditionFalse,
                      cond_Reason = ''DeploymentUnavailable'',
                      cond_Message = ''no replicas are available yet'',
                      cond_ObservedGeneration = 1, cond_LastTransitionTime = 50\<rparr>"
    by (simp add: api_defs ctl_defs ex_defs clean_result_def stored_condition_def
        condition_of_def FindStatusCondition_def Let_def)
  then show ?thesis
    by (simp add: split_beta)
qed

text \<open>
  C10. After a pass that finishes cleanly the stored WebApp has a Degraded condition with
  state False, reason ReconcileComplete and message "no errors", stamped with the
  generation of the WebApp, whatever Degraded condition it had before.
\<close>

theorem C10_clean_pass_clears_degraded:
  assumes has: "webapps w req = Some x" and key: "wkey x = req"
    and run: "Reconcile req w = (clean_result, w')"
  shows "\<exists>y dg.
       webapps w' req = Some y
     \<and> condition_of y TypeDegraded = Some dg
     \<and> cond_Status dg = ConditionFalse
     \<and> cond_Reason dg = ''ReconcileComplete''
     \<and> cond_Message dg = ''no errors''
     \<and> cond_ObservedGeneration dg = Generation x"
proof -
  from clean_pass_store [OF has key run]
  obtain y cs where y: "webapps w' req = Some y"
    and yd: "Status_Conditions y =
            SetStatusCondition (clock w) cs
              \<lparr>cond_Type = TypeDegraded, cond_Status = ConditionFalse,
               cond_Reason = ''ReconcileComplete'', cond_Message = ''no errors'',
               cond_ObservedGeneration = Generation x, cond_LastTransitionTime = 0\<rparr>"
    by auto
  show ?thesis
    using y
    by (simp add: yd condition_of_def Find_Set merge_condition_fields split: option.splits)
qed

theorem C10_witness:
  "map_option cond_Status
     (stored_condition (ex_cluster ex_degraded None None []) ex_key TypeDegraded)
     = Some ConditionTrue
   \<and> fst (Reconcile ex_key (ex_cluster ex_degraded None None [])) = clean_result
   \<and> map_option cond_Status
        (stored_condition (snd (Reconcile ex_key (ex_cluster ex_degraded None None [])))
           ex_key TypeDegraded) = Some ConditionFalse
   \<and> map_option cond_Message
        (stored_condition (snd (Reconcile ex_key (ex_cluster ex_degraded None None [])))
           ex_key TypeDegraded) = Some ''no errors''"
proof -
  let ?w = "ex_cluster ex_degraded None None []"
  let ?v = "snd (Reconcile ex_key ?w)"
  have has: "webapps ?w ex_key = Some ex_degraded"
    by (simp add: ex_cluster_def)
  have key: "wkey ex_degraded = ex_key"
    by (simp add: wkey_def ex_defs)
  have before: "map_option cond_Status (stored_condition ?w ex_key TypeDegraded)
      = Some ConditionTrue"
    by (simp add: stored_condition_def condition_of_def FindStatusCondition_def
        TypeDegraded_def ex_defs)
  have r: "fst (Reconcile ex_key ?w) = clean_result"
    by (simp add: api_defs ctl_defs ex_defs clean_result_def Let_def)
  then have run: "Reconcile ex_key ?w = (clean_result, ?v)"
    by (simp add: prod_eq_iff)
  from C10_clean_pass_clears_degraded [OF has key run] before r
  show ?thesis
    by (auto simp: stored_condition_def)
qed

section \<open>The order of the calls of a pass\<close>












section \<open>Failures that leave no condition\<close>

text \<open>
  C8. Take the steady-state cluster and let the seventh store call, the fetch of the
  Deployment for status, time out after the Progressing mark and both child syncs went
  through. The pass returns the wrapped error; the mark is the only status write it
  issued; the stored WebApp has no Degraded condition and still says Progressing = True;
  and the next store call would have gone through. The two sync steps before it report
  their failure in a Degraded condition; this step does not.
\<close>

theorem C8_status_fetch_failure_unreported:
  "fst (Reconcile ex_key
          (ex_cluster ex_ready (Some ex_deployment) (Some ex_service)
             [Succeed, Succeed, Succeed, Succeed, Succeed, Succeed, Fail ''etcd timeout'']))
     = Returns (Result_empty,
         Some (Wrapped ''fetching deployment for status'' (ApiError (Transient ''etcd timeout''))))
   \<and> length (filter is_status_write
        (pass_calls
           (ex_cluster ex_ready (Some ex_deployment) (Some ex_service)
              [Succeed, Succeed, Succeed, Succeed, Succeed, Succeed, Fail ''etcd timeout''])
           (snd (Reconcile ex_key
              (ex_cluster ex_ready (Some ex_deployment) (Some ex_service)
                 [Succeed, Succeed, Succeed, Succeed, Succeed, Succeed, Fail ''etcd timeout'']))))) = 1
   \<and> stored_condition
        (snd (Reconcile ex_key
           (ex_cluster ex_ready (Some ex_deployment) (Some ex_service)
              [Succeed, Succeed, Succeed, Succeed, Succeed, Succeed, Fail ''etcd timeout''])))
        ex_key TypeDegraded = None
   \<and> stored_condition
        (snd (Reconcile ex_key
           (ex_cluster ex_ready (Some ex_deployment) (Some ex_service)
              [Succeed, Succeed, Succeed, Succeed, Succeed, Succeed, Fail ''etcd timeout''])))
        ex_key TypeAvailable = None
   \<and> stored_condition
        (snd (Reconcile ex_key
           (ex_cluster ex_ready (Some ex_deployment) (Some ex_service)
              [Succeed, Succeed, Succeed, Succeed, Succeed, Succeed, Fail ''etcd timeout''])))
        ex_key TypeProgressing
       = Some \<lparr>cond_Type = ''Progressing'', cond_Status = ConditionTrue,
               cond_Reason = ''Reconciling'', cond_Message = ''reconciliation in progress'',
               cond_ObservedGeneration = 1, cond_LastTransitionTime = 50\<rparr>
   \<and> outcome_at
        (snd (Reconcile ex_key
           (ex_cluster ex_ready (Some ex_deployment) (Some ex_service)
              [Succeed, Succeed, Succeed, Succeed, Succeed, Succeed, Fail ''etcd timeout''])))
        0 = Succeed"
proof -
  have "case Reconcile ex_key
          (ex_cluster ex_ready (Some ex_deployment) (Some ex_service)
             [Succeed, Succeed, Succeed, Succeed, Succeed, Succeed, Fail ''etcd timeout'']) of
          (r, v) \<Rightarrow>
            r = Returns (Result_empty,
                  Some (Wrapped ''fetching deployment for status''
                          (ApiError (Transient ''etcd timeout''))))
            \<and> length (filter is_status_write
                 (pass_calls
                    (ex_cluster ex_ready (Some ex_deployment) (Some ex_service)
                       [Succeed, Succeed, Succeed, Succeed, Succeed, Succeed,
                        Fail ''etcd timeout'']) v)) = 1
            \<and> stored_condition v ex_key TypeDegraded = None
            \<and> stored_condition v ex_key TypeAvailable = None
            \<and> stored_condition v ex_key TypeProgressing
                = Some \<lparr>cond_Type = ''Progressing'', cond_Status = ConditionTrue,
                        cond_Reason = ''Reconciling'',
                        cond_Message = ''reconciliation in progress'',
                        cond_ObservedGeneration = 1, cond_LastTransitionTime = 50\<rparr>
            \<and> outcome_at v 0 = Succeed"
    by (simp add: api_defs ctl_defs ex_defs pass_calls_def stored_condition_def
        condition_of_def FindStatusCondition_def outcome_at_def Let_def)
  then show ?thesis
    by (simp add: split_beta)
qed

section \<open>Two passes in a row\<close>

lemma calm_upd [simp]:
  "calm (w\<lparr>webapps := a\<rparr>) = calm w"
  "calm (w\<lparr>deployments := b\<rparr>) = calm w"
  "calm (w\<lparr>services := c\<rparr>) = calm w"
  "calm (w\<lparr>clock := t\<rparr>) = calm w"
  by (simp_all add: calm_def)









lemma desired_ignores_status [simp]:
  "desiredDeployment (x\<lparr>Status_Conditions := cs\<rparr>) = desiredDeployment x"
  "desiredDeployment (x\<lparr>Status_AvailableReplicas := n\<rparr>) = desiredDeployment x"
  "desiredService (x\<lparr>Status_Conditions := cs\<rparr>) = desiredService x"
  "desiredService (x\<lparr>Status_AvailableReplicas := n\<rparr>) = desiredService x"
  "controller_ref (x\<lparr>Status_Conditions := cs\<rparr>) = controller_ref x"
  "controller_ref (x\<lparr>Status_AvailableReplicas := n\<rparr>) = controller_ref x"
  by (simp_all add: desiredDeployment_def desiredService_def controller_ref_def)

lemma synced_ignores_status [simp]:
  "synced_deployment (x\<lparr>Status_Conditions := cs\<rparr>) e = synced_deployment x e"
  "synced_deployment (x\<lparr>Status_AvailableReplicas := n\<rparr>) e = synced_deployment x e"
  "synced_service (x\<lparr>Status_Conditions := cs\<rparr>) f = synced_service x f"
  "synced_service (x\<lparr>Status_AvailableReplicas := n\<rparr>) f = synced_service x f"
  by (simp_all add: synced_deployment_def synced_service_def split: option.splits)





















end
